theory Spec2Isabelle
  imports Complex_Main
begin

section \<open>JavaScript values\<close>

text \<open>
  The engine (class \<open>EnvironmentalAudioEngine\<close> of \<open>audio-engine.js\<close>) computes with
  JavaScript numbers. A number is NaN, an infinity or a finite value; finite values are
  modelled as reals, so rounding, overflow and the sign of zero are not represented.
  Every operator below follows ECMAScript on NaN and on the infinities; a real zero
  stands for the positive zero.
\<close>

datatype jsnum = NaN | NegInf | Fin real | PosInf

text \<open>A value read from a parameter or an array slot may also be \<open>undefined\<close>.\<close>

datatype jsval = Undefined | Number jsnum

text \<open>\<open>ToNumber\<close>: \<open>undefined\<close> becomes NaN in arithmetic and comparisons.\<close>

fun ToNumber :: "jsval \<Rightarrow> jsnum" where
  "ToNumber Undefined = NaN"
| "ToNumber (Number x) = x"


text \<open>The relational operator \<open><\<close>; any comparison with NaN is false.\<close>

fun js_lt :: "jsnum \<Rightarrow> jsnum \<Rightarrow> bool" where
  "js_lt NaN y = False"
| "js_lt x NaN = False"
| "js_lt (Fin a) (Fin b) = (a < b)"
| "js_lt x NegInf = False"
| "js_lt NegInf y = True"
| "js_lt PosInf y = False"
| "js_lt (Fin a) PosInf = True"

definition js_gt :: "jsnum \<Rightarrow> jsnum \<Rightarrow> bool" where
  "js_gt x y = js_lt y x"

definition js_le :: "jsnum \<Rightarrow> jsnum \<Rightarrow> bool" where
  "js_le x y = (x \<noteq> NaN \<and> y \<noteq> NaN \<and> \<not> js_lt y x)"

definition js_ge :: "jsnum \<Rightarrow> jsnum \<Rightarrow> bool" where
  "js_ge x y = js_le y x"

text \<open>\<open>Math.min\<close> and \<open>Math.max\<close> of two arguments return NaN when either is NaN.\<close>

fun Math_min :: "jsnum \<Rightarrow> jsnum \<Rightarrow> jsnum" where
  "Math_min NaN y = NaN"
| "Math_min x NaN = NaN"
| "Math_min x y = (if js_lt y x then y else x)"

fun Math_max :: "jsnum \<Rightarrow> jsnum \<Rightarrow> jsnum" where
  "Math_max NaN y = NaN"
| "Math_max x NaN = NaN"
| "Math_max x y = (if js_lt x y then y else x)"

text \<open>Arithmetic. NaN propagates; the infinities follow IEEE 754.\<close>

fun js_neg :: "jsnum \<Rightarrow> jsnum" where
  "js_neg NaN = NaN"
| "js_neg NegInf = PosInf"
| "js_neg (Fin a) = Fin (- a)"
| "js_neg PosInf = NegInf"

fun js_add :: "jsnum \<Rightarrow> jsnum \<Rightarrow> jsnum" where
  "js_add NaN y = NaN"
| "js_add x NaN = NaN"
| "js_add (Fin a) (Fin b) = Fin (a + b)"
| "js_add PosInf NegInf = NaN"
| "js_add NegInf PosInf = NaN"
| "js_add PosInf y = PosInf"
| "js_add x PosInf = PosInf"
| "js_add NegInf y = NegInf"
| "js_add x NegInf = NegInf"

definition js_sub :: "jsnum \<Rightarrow> jsnum \<Rightarrow> jsnum" where
  "js_sub x y = js_add x (js_neg y)"

fun js_mul :: "jsnum \<Rightarrow> jsnum \<Rightarrow> jsnum" where
  "js_mul NaN y = NaN"
| "js_mul x NaN = NaN"
| "js_mul (Fin a) (Fin b) = Fin (a * b)"
| "js_mul (Fin a) y = (if a = 0 then NaN else if (0 < a) = (y = PosInf) then PosInf else NegInf)"
| "js_mul x (Fin b) = (if b = 0 then NaN else if (0 < b) = (x = PosInf) then PosInf else NegInf)"
| "js_mul x y = (if x = y then PosInf else NegInf)"

fun js_div :: "jsnum \<Rightarrow> jsnum \<Rightarrow> jsnum" where
  "js_div NaN y = NaN"
| "js_div x NaN = NaN"
| "js_div (Fin a) (Fin b) =
     (if b = 0 then (if a = 0 then NaN else if 0 < a then PosInf else NegInf)
      else Fin (a / b))"
| "js_div (Fin a) y = Fin 0"
| "js_div x (Fin b) = (if (0 \<le> b) = (x = PosInf) then PosInf else NegInf)"
| "js_div x y = NaN"

text \<open>
  The remainder operator \<open>%\<close> truncates the quotient towards zero, so the result has
  the sign of the dividend: \<open>-10 % 360\<close> is \<open>-10\<close>.
\<close>

definition trunc :: "real \<Rightarrow> int" where
  "trunc r = (if 0 \<le> r then \<lfloor>r\<rfloor> else - \<lfloor>- r\<rfloor>)"

fun js_mod :: "jsnum \<Rightarrow> jsnum \<Rightarrow> jsnum" where
  "js_mod NaN y = NaN"
| "js_mod x NaN = NaN"
| "js_mod (Fin a) (Fin b) = (if b = 0 then NaN else Fin (a - b * of_int (trunc (a / b))))"
| "js_mod (Fin a) y = Fin a"
| "js_mod x y = NaN"

fun Math_floor :: "jsnum \<Rightarrow> jsnum" where
  "Math_floor (Fin a) = Fin (of_int \<lfloor>a\<rfloor>)"
| "Math_floor x = x"

fun Math_abs :: "jsnum \<Rightarrow> jsnum" where
  "Math_abs NaN = NaN"
| "Math_abs (Fin a) = Fin \<bar>a\<bar>"
| "Math_abs x = PosInf"

fun Math_sin :: "jsnum \<Rightarrow> jsnum" where
  "Math_sin (Fin a) = Fin (sin a)"
| "Math_sin x = NaN"

fun Math_cos :: "jsnum \<Rightarrow> jsnum" where
  "Math_cos (Fin a) = Fin (cos a)"
| "Math_cos x = NaN"

fun Math_asin :: "jsnum \<Rightarrow> jsnum" where
  "Math_asin (Fin a) = (if - 1 \<le> a \<and> a \<le> 1 then Fin (arcsin a) else NaN)"
| "Math_asin x = NaN"

text \<open>\<open>Math.pow(2, x)\<close>, the only power the mapping code takes.\<close>

fun Math_pow2 :: "jsnum \<Rightarrow> jsnum" where
  "Math_pow2 NaN = NaN"
| "Math_pow2 NegInf = Fin 0"
| "Math_pow2 (Fin a) = Fin (2 powr a)"
| "Math_pow2 PosInf = PosInf"

definition Math_PI :: jsnum where
  "Math_PI = Fin pi"

text \<open>
  Reading \<open>xs[i]\<close> with a number as the key: an element when the key is an integer
  within the array, \<open>undefined\<close> otherwise (negative, fractional, NaN or too large).
\<close>

fun js_index :: "jsnum list \<Rightarrow> jsnum \<Rightarrow> jsval" where
  "js_index xs (Fin r) =
     (if of_int \<lfloor>r\<rfloor> = r \<and> 0 \<le> r \<and> r < real (length xs)
      then Number (xs ! nat \<lfloor>r\<rfloor>) else Undefined)"
| "js_index xs i = Undefined"

section \<open>Audio parameters\<close>

text \<open>
  An \<open>AudioParam\<close> of the platform holds its current value and the automation events
  scheduled on it. The model records each event as the engine hands it over: the target
  value and the time. (A browser rejects a non-finite target with a TypeError; the model
  keeps the value, so that what the engine computed stays visible.)
\<close>

datatype automation =
    SetValueAtTime jsnum jsnum
  | LinearRampToValueAtTime jsnum jsnum
  | ExponentialRampToValueAtTime jsnum jsnum

fun eventTime :: "automation \<Rightarrow> jsnum" where
  "eventTime (SetValueAtTime v t) = t"
| "eventTime (LinearRampToValueAtTime v t) = t"
| "eventTime (ExponentialRampToValueAtTime v t) = t"

record AudioParam =
  pvalue :: jsnum
  pevents :: "automation list"

text \<open>\<open>cancelScheduledValues(t)\<close> drops every event whose time is at or after \<open>t\<close>.\<close>

definition cancelScheduledValues :: "jsnum \<Rightarrow> AudioParam \<Rightarrow> AudioParam" where
  "cancelScheduledValues t p = p\<lparr>pevents := filter (\<lambda>e. \<not> js_ge (eventTime e) t) (pevents p)\<rparr>"

definition setValueAtTime :: "jsnum \<Rightarrow> jsnum \<Rightarrow> AudioParam \<Rightarrow> AudioParam" where
  "setValueAtTime v t p = p\<lparr>pevents := pevents p @ [SetValueAtTime v t]\<rparr>"

definition linearRampToValueAtTime :: "jsnum \<Rightarrow> jsnum \<Rightarrow> AudioParam \<Rightarrow> AudioParam" where
  "linearRampToValueAtTime v t p = p\<lparr>pevents := pevents p @ [LinearRampToValueAtTime v t]\<rparr>"

definition exponentialRampToValueAtTime :: "jsnum \<Rightarrow> jsnum \<Rightarrow> AudioParam \<Rightarrow> AudioParam" where
  "exponentialRampToValueAtTime v t p = p\<lparr>pevents := pevents p @ [ExponentialRampToValueAtTime v t]\<rparr>"

text \<open>An oscillator: its waveform (a built-in type or a periodic wave) and its frequency.\<close>

datatype wave = OscType string | PeriodicWave "real list"

record OscillatorNode =
  osc_wave :: wave
  frequency :: AudioParam

section \<open>The engine state\<close>

text \<open>
  A pending \<open>setTimeout\<close> entry: its id, its delay in milliseconds and its callback
  with the variables the closure captured. \<open>PulseStart\<close> is the outer callback of
  \<open>scheduleSporadicPulse\<close> (oscIndex, interval, duration, fadeIn, fadeOut),
  \<open>HoldEnd\<close> the inner callback of the envelope branch (oscIndex, fadeOut) and
  \<open>ClickNext\<close> the inner callback of the click branch (oscIndex).
\<close>

datatype callback =
    PulseStart nat jsnum jsnum jsnum jsnum
  | HoldEnd nat jsnum
  | ClickNext nat

record timer =
  tid :: nat
  delay :: jsnum
  cb :: callback

text \<open>
  The fields of the class that the operations below read or write (the audio context,
  the convolver, the master gain, the traffic oscillator and the display callback are
  left out), followed by the platform state the engine acts on: the audio clock
  \<open>audioContext.currentTime\<close>, the sample rate, the table of pending timeouts, the
  volumes of the click sources started, and the outcomes of successive
  \<open>Math.random()\<close> calls, each in the interval from 0 to 1.
\<close>

record engine =
  oscillators :: "OscillatorNode list"
  gainNodes :: "AudioParam list"
  panners :: "jsnum list"
  dryGain :: "jsnum option"
  wetGain :: "jsnum option"
  lowPassFilter :: "jsnum option"
  highPassFilter :: "jsnum option"
  isRunning :: bool
  mode :: string
  waveform :: string
  scale :: string
  fundamentalFreq :: jsnum
  sporadicTimers :: "nat list"
  latitude :: jsval
  longitude :: jsval
  speed :: jsval
  temperature :: jsval
  humidity :: jsval
  heading :: jsval
  timeOfDay :: jsval
  elevation :: jsval
  rainfall :: jsval
  sunElevation :: jsnum
  populationDensity :: jsval
  trafficDensity :: jsval
  lastHeading :: jsval
  currentTime :: real
  sampleRate :: real
  timers :: "timer list"
  nextTimerId :: nat
  clickSources :: "jsnum list"
  randoms :: "nat \<Rightarrow> real"
  drawn :: nat

text \<open>
  The constructor, given the outcomes the random source will produce. The filter and bus
  nodes are \<open>null\<close> (\<open>None\<close>) until \<open>start\<close> creates them; of each the model keeps
  the one parameter the engine writes. The platform starts with its clock at 0, a sample
  rate of 44100 and no pending timeout.
\<close>

definition EnvironmentalAudioEngine :: "(nat \<Rightarrow> real) \<Rightarrow> engine" where
  "EnvironmentalAudioEngine rnd =
     \<lparr>oscillators = [], gainNodes = [], panners = [],
      dryGain = None, wetGain = None, lowPassFilter = None, highPassFilter = None,
      isRunning = False,
      mode = ''drone'', waveform = ''sine'', scale = ''dreyblatt'',
      fundamentalFreq = Fin 200, sporadicTimers = [],
      latitude = Number (Fin 0), longitude = Number (Fin 0), speed = Number (Fin 0),
      temperature = Number (Fin 20), humidity = Number (Fin 50), heading = Number (Fin 0),
      timeOfDay = Number (Fin 0.5), elevation = Number (Fin 0), rainfall = Number (Fin 0),
      sunElevation = Fin 0, populationDensity = Number (Fin 0.5),
      trafficDensity = Number (Fin 0.0), lastHeading = Number (Fin 0),
      currentTime = 0, sampleRate = 44100, timers = [], nextTimerId = 0, clickSources = [],
      randoms = rnd, drawn = 0\<rparr>"

section \<open>getScaleTones\<close>

text \<open>The \<open>switch\<close> on \<open>this.scale\<close>, with its \<open>default\<close> branch.\<close>

definition slendroBase :: "jsnum list" where
  "slendroBase = [Fin 1.0, Fin 1.2, Fin 1.4, Fin 1.68, Fin 1.87]"

definition pelogBase :: "jsnum list" where
  "pelogBase = [Fin 1.0, Fin 1.122, Fin 1.26, Fin 1.414, Fin 1.587, Fin 1.682, Fin 1.888]"

definition scaleRatiosOf :: "string \<Rightarrow> jsnum list" where
  "scaleRatiosOf s =
     (if s = ''dreyblatt'' then
        [Fin 1.0, Fin 1.125, Fin 1.25, Fin 1.375, Fin 1.5, Fin 1.625, Fin 1.75, Fin 1.875,
         Fin 2.0, Fin 2.125, Fin 2.25, Fin 2.375, Fin 2.5, Fin 2.625, Fin 2.75, Fin 2.875,
         Fin 3.0, Fin 3.125, Fin 3.25, Fin 3.375]
      else if s = ''harmonic'' then
        [Fin 1.0, Fin 2.0, Fin 3.0, Fin 4.0, Fin 5.0, Fin 6.0, Fin 7.0, Fin 8.0, Fin 9.0,
         Fin 10.0, Fin 11.0, Fin 12.0, Fin 13.0, Fin 14.0, Fin 15.0, Fin 16.0, Fin 17.0,
         Fin 18.0, Fin 19.0, Fin 20.0]
      else if s = ''slendro'' then
        slendroBase @ map (\<lambda>r. js_mul r (Fin 2)) slendroBase
          @ map (\<lambda>r. js_mul r (Fin 3)) slendroBase @ map (\<lambda>r. js_mul r (Fin 4)) slendroBase
      else if s = ''pelog'' then
        pelogBase @ map (\<lambda>r. js_mul r (Fin 2)) pelogBase @ map (\<lambda>r. js_mul r (Fin 3)) pelogBase
      else if s = ''quartertone'' then
        map (\<lambda>i. Math_pow2 (js_div (Fin (real i)) (Fin 24))) [0..<24]
      else
        [Fin 1.0, Fin 1.125, Fin 1.25, Fin 1.5, Fin 1.75, Fin 2.0])"

text \<open>
  The four heading quadrants. Every index but the first of the first quadrant goes
  through \<open>Math.min(_, scaleRatios.length - 1)\<close>; none is bounded from below.
\<close>

definition getScaleTones :: "engine \<Rightarrow> jsval list" where
  "getScaleTones st =
     (let headingNorm = js_mod (ToNumber (heading st)) (Fin 360);
          scaleRatios = scaleRatiosOf (scale st);
          len = Fin (real (length scaleRatios));
          top = js_sub len (Fin 1)
      in
        if js_lt headingNorm (Fin 90) then
          let t = js_div headingNorm (Fin 90);
              startIdx = Math_floor (js_mul t (Math_min (Fin 4) (js_sub len (Fin 10))))
          in [js_index scaleRatios startIdx,
              js_index scaleRatios (Math_min (js_add startIdx (Fin 2)) top),
              js_index scaleRatios (Math_min (js_add startIdx (Fin 4)) top),
              js_index scaleRatios (Math_min (js_add startIdx (Fin 6)) top),
              js_index scaleRatios (Math_min (js_add startIdx (Fin 8)) top),
              js_index scaleRatios (Math_min (js_add startIdx (Fin 10)) top)]
        else if js_lt headingNorm (Fin 180) then
          let t = js_div (js_sub headingNorm (Fin 90)) (Fin 90);
              startIdx = Math_floor (js_add (Fin 5)
                           (js_mul t (Math_min (Fin 5) (js_sub len (Fin 15)))))
          in [js_index scaleRatios (Math_min startIdx top),
              js_index scaleRatios (Math_min (js_add startIdx (Fin 1)) top),
              js_index scaleRatios (Math_min (js_add startIdx (Fin 3)) top),
              js_index scaleRatios (Math_min (js_add startIdx (Fin 5)) top),
              js_index scaleRatios (Math_min (js_add startIdx (Fin 7)) top),
              js_index scaleRatios (Math_min (js_add startIdx (Fin 9)) top)]
        else if js_lt headingNorm (Fin 270) then
          let t = js_div (js_sub headingNorm (Fin 180)) (Fin 90);
              startIdx = Math_floor (js_add (Fin 10)
                           (js_mul t (Math_min (Fin 6) (js_sub len (Fin 16)))))
          in [js_index scaleRatios (Math_min startIdx top),
              js_index scaleRatios (Math_min (js_add startIdx (Fin 2)) top),
              js_index scaleRatios (Math_min (js_add startIdx (Fin 4)) top),
              js_index scaleRatios (Math_min (js_add startIdx (Fin 6)) top),
              js_index scaleRatios (Math_min (js_add startIdx (Fin 8)) top),
              js_index scaleRatios top]
        else
          let t = js_div (js_sub headingNorm (Fin 270)) (Fin 90);
              spread = Math_floor (js_mul t (Fin 3))
          in [js_index scaleRatios (Math_min (js_add (Fin 0) spread) top),
              js_index scaleRatios (Math_min (js_add (Fin 4) spread) top),
              js_index scaleRatios (Math_min (js_add (Fin 8) spread) top),
              js_index scaleRatios (Math_min (js_add (Fin 12) spread) top),
              js_index scaleRatios (Math_min (js_add (Fin 16) spread) top),
              js_index scaleRatios top])"

section \<open>Envelopes: fadeIn and fadeOut\<close>

text \<open>\<open>Math.random()\<close> takes the next outcome of the stream.\<close>

definition Math_random :: "engine \<Rightarrow> real \<times> engine" where
  "Math_random st = (randoms st (drawn st), st\<lparr>drawn := drawn st + 1\<rparr>)"

definition fadeIn :: "nat \<Rightarrow> jsnum \<Rightarrow> jsnum \<Rightarrow> engine \<Rightarrow> engine" where
  "fadeIn oscIndex duration targetVolume st =
     (if \<not> isRunning st \<or> \<not> oscIndex < length (gainNodes st) then st
      else
        let now = Fin (currentTime st);
            gainNode = gainNodes st ! oscIndex;
            (r1, st1) = Math_random st;
            irregularity = js_mul (js_sub (Fin r1) (Fin 0.5)) (Fin 0.02);
            organicDuration = Math_max (Fin 0.01) (js_add duration irregularity);
            (r2, st2) = Math_random st1;
            flutter = js_mul (js_sub (Fin r2) (Fin 0.5)) (Fin 0.001);
            organicVolume = js_mul targetVolume (js_add (Fin 1) flutter);
            reverseAttackMultiplier =
              js_add (Fin 1) (js_mul (js_sub (Fin 1) (ToNumber (populationDensity st))) (Fin 2));
            finalDuration = js_mul organicDuration reverseAttackMultiplier;
            g1 = cancelScheduledValues now gainNode;
            g2 = setValueAtTime (Fin 0) now g1;
            g3 = linearRampToValueAtTime organicVolume (js_add now finalDuration) g2
        in st2\<lparr>gainNodes := (gainNodes st2)[oscIndex := g3]\<rparr>)"

definition fadeOut :: "nat \<Rightarrow> jsnum \<Rightarrow> engine \<Rightarrow> engine" where
  "fadeOut oscIndex duration st =
     (if \<not> isRunning st \<or> \<not> oscIndex < length (gainNodes st) then st
      else
        let now = Fin (currentTime st);
            gainNode = gainNodes st ! oscIndex;
            ruralCutoff = js_lt (ToNumber (populationDensity st)) (Fin 0.3)
        in
          if ruralCutoff then
            let g1 = cancelScheduledValues now gainNode;
                g2 = setValueAtTime (pvalue g1) now g1;
                g3 = linearRampToValueAtTime (Fin 0) (js_add now (Fin 0.001)) g2
            in st\<lparr>gainNodes := (gainNodes st)[oscIndex := g3]\<rparr>
          else
            let (r1, st1) = Math_random st;
                irregularity = js_mul (js_sub (Fin r1) (Fin 0.5)) (Fin 0.02);
                organicDuration = Math_max (Fin 0.01) (js_add duration irregularity);
                fadeMultiplier = ToNumber (populationDensity st);
                finalDuration = js_mul organicDuration fadeMultiplier;
                g1 = cancelScheduledValues now gainNode;
                g2 = setValueAtTime (pvalue g1) now g1;
                g3 = linearRampToValueAtTime (Fin 0) (js_add now finalDuration) g2
            in st1\<lparr>gainNodes := (gainNodes st1)[oscIndex := g3]\<rparr>)"

section \<open>The frequency mapper\<close>

definition calculateSunElevation :: "engine \<Rightarrow> jsnum" where
  "calculateSunElevation st =
     (let hourAngle = js_mul (js_mul (js_sub (ToNumber (timeOfDay st)) (Fin 0.5)) Math_PI) (Fin 2);
          declination = Fin 0;
          latRad = js_div (js_mul (ToNumber (latitude st)) Math_PI) (Fin 180);
          elevation =
            js_div (js_mul
              (Math_asin (js_add (js_mul (Math_sin latRad) (Math_sin declination))
                 (js_mul (js_mul (Math_cos latRad) (Math_cos declination)) (Math_cos hourAngle))))
              (Fin 180)) Math_PI
      in Math_max (Fin (- 90)) (Math_min (Fin 90) elevation))"

text \<open>The base frequency: temperature, latitude, time of day and density, multiplied.\<close>

definition baseFreqOf :: "engine \<Rightarrow> jsnum" where
  "baseFreqOf st =
     (let hours = js_mul (ToNumber (timeOfDay st)) (Fin 24);
          tempNorm = js_div (js_add (ToNumber (temperature st)) (Fin 20)) (Fin 60);
          tempReference = js_add (Fin 100) (js_mul tempNorm (Fin 700));
          latNorm = js_div (Math_abs (ToNumber (latitude st))) (Fin 90);
          latOctave = Math_pow2 latNorm;
          phaseShift = js_mul (js_mul (js_div (js_sub hours (Fin 12)) (Fin 24)) (Fin 2)) Math_PI;
          timeModulation = Math_pow2 (js_mul (Math_sin phaseShift) (Fin 0.5));
          densityShift = Math_pow2 (js_mul (ToNumber (populationDensity st)) (Fin 0.5))
      in js_mul (js_mul (js_mul tempReference latOctave) timeModulation) densityShift)"

text \<open>
  The body of the \<open>forEach\<close> over \<open>harmonicIndices\<close>: the frequency of voice
  \<open>oscIdx\<close>, the \<open>i\<close>-th of the six harmonic voices.
\<close>

definition harmonicOf :: "string \<Rightarrow> bool \<Rightarrow> jsnum \<Rightarrow> jsval list \<Rightarrow> nat \<Rightarrow> nat \<Rightarrow> jsnum" where
  "harmonicOf md useSubharmonics fund compassTones oscIdx i =
     (let tone = ToNumber (compassTones ! (i mod length compassTones));
          octaveMultiplier = Fin (real (i div length compassTones + 1));
          harmonic = (if useSubharmonics then js_div fund (js_mul tone octaveMultiplier)
                      else js_mul (js_mul fund tone) octaveMultiplier)
      in
        if md = ''pulse'' then
          (if oscIdx \<le> 2 then js_mul harmonic (Fin 0.25)
           else if oscIdx \<ge> 5 then js_mul harmonic (Fin 4.0) else harmonic)
        else if md = ''click'' then
          (if oscIdx \<le> 2 then js_mul harmonic (Fin 0.125)
           else if oscIdx \<ge> 5 then js_mul harmonic (Fin 8.0) else harmonic)
        else
          (if oscIdx = 1 \<or> oscIdx = 2 then js_mul harmonic (Fin 1.0)
           else if oscIdx = 6 \<or> oscIdx = 7 then js_mul harmonic (Fin 8.0)
           else if oscIdx = 5 then js_mul harmonic (Fin 4.0) else harmonic))"

definition harmonicIndices :: "nat list" where
  "harmonicIndices = [1, 2, 4, 5, 6, 7]"

text \<open>
  The rainfall tremolo: \<^verbatim>\<open>for (let t = 0; t < 2; t += 0.05)\<close> on one gain. The
  counter is a real here, so the rounding of the accumulated steps is not represented.
\<close>

function tremoloLoop :: "real \<Rightarrow> jsnum \<Rightarrow> jsnum \<Rightarrow> jsnum \<Rightarrow> jsnum \<Rightarrow> AudioParam \<Rightarrow> AudioParam" where
  "tremoloLoop t tremoloRate tremoloDepth currentGain now p =
     (if t < 2 then
        let phase = js_mul (js_mul (js_mul (Fin t) tremoloRate) Math_PI) (Fin 2);
            modulation = js_add (js_sub (Fin 1) (js_mul tremoloDepth (Fin 0.5)))
                           (js_mul (js_mul tremoloDepth (Fin 0.5)) (Math_sin phase))
        in tremoloLoop (t + 0.05) tremoloRate tremoloDepth currentGain now
             (linearRampToValueAtTime (js_mul currentGain modulation) (js_add now (Fin t)) p)
      else p)"
  by pat_completeness auto
termination
proof (relation "measure (\<lambda>(t, r, d, g, n, p). nat \<lceil>(2 - t) * 20\<rceil>)")
  show "wf (measure (\<lambda>(t, r, d, g, n, p). nat \<lceil>(2 - t) * 20\<rceil>))" by simp
next
  fix t :: real and tremoloRate tremoloDepth currentGain now :: jsnum and p :: AudioParam
    and x xa
  assume "t < 2"
  then have "\<lceil>(2 - (t + 5 / 10\<^sup>2)) * 20\<rceil> = \<lceil>(2 - t) * 20\<rceil> - 1" "0 < \<lceil>(2 - t) * 20\<rceil>"
    by (simp_all add: algebra_simps power2_eq_square) linarith
  then show "((t + 5 / 10\<^sup>2, tremoloRate, tremoloDepth, currentGain, now,
               linearRampToValueAtTime (js_mul currentGain xa) (js_add now (Fin t)) p),
              (t, tremoloRate, tremoloDepth, currentGain, now, p))
             \<in> measure (\<lambda>(t, r, d, g, n, p). nat \<lceil>(2 - t) * 20\<rceil>)"
    by simp
qed

definition tremolo :: "jsnum \<Rightarrow> jsnum \<Rightarrow> jsnum \<Rightarrow> AudioParam \<Rightarrow> AudioParam" where
  "tremolo now tremoloRate tremoloDepth gainNode =
     (let currentGain = pvalue gainNode
      in if js_gt currentGain (Fin 0) then
           tremoloLoop 0 tremoloRate tremoloDepth currentGain now
             (setValueAtTime currentGain now (cancelScheduledValues now gainNode))
         else gainNode)"

section \<open>setOscillatorFrequency\<close>

text \<open>
  \<^verbatim>\<open>if (!this.oscillators[index]) return;\<close> leaves the engine as it is when there is no
  such oscillator. Otherwise the pending automation is cancelled, the current value is
  pinned and an exponential ramp to the clamped target is scheduled two seconds ahead.
\<close>

definition setOscillatorFrequency :: "nat \<Rightarrow> jsnum \<Rightarrow> engine \<Rightarrow> engine" where
  "setOscillatorFrequency index freq st =
     (if \<not> index < length (oscillators st) then st
      else
        let now = Fin (currentTime st);
            osc = oscillators st ! index;
            organicFreq = freq;
            p0 = frequency osc;
            p1 = cancelScheduledValues now p0;
            p2 = setValueAtTime (pvalue p1) now p1;
            p3 = exponentialRampToValueAtTime
                   (Math_max (Fin 20) (Math_min (Fin 20000) organicFreq))
                   (Fin (currentTime st + 2.0)) p2
        in st\<lparr>oscillators := (oscillators st)[index := osc\<lparr>frequency := p3\<rparr>]\<rparr>)"

section \<open>updateFrequencies and setEnvironmentalData\<close>

text \<open>
  The mapper, in the order of its statements, cut into the blocks of the source: the
  fundamental, the temperature drift, the filters, the voices, the mix and pans, the
  rainfall tremolo. The display callback \<open>onFrequencyUpdate\<close> at its end only reads
  the frequencies and is left out.
\<close>

definition setFundamental :: "engine \<Rightarrow> engine" where
  "setFundamental st =
     (let baseFreq = baseFreqOf st;
          (r1, st1) = Math_random st;
          fundamental =
            (if mode st = ''pulse'' then
               js_mul baseFreq (js_add (Fin 0.5) (js_mul (Fin r1) (Fin 2.5)))
             else if mode st = ''click'' then
               js_mul baseFreq (js_add (Fin 0.25) (js_mul (Fin r1) (Fin 8)))
             else
               js_mul baseFreq (js_add (Fin 0.75) (js_mul (Fin r1) (Fin 0.5))))
      in st1\<lparr>fundamentalFreq := fundamental\<rparr>)"

definition drawDrift :: "engine \<Rightarrow> jsnum \<times> engine" where
  "drawDrift st =
     (let tempDrift = js_mul (js_sub (ToNumber (temperature st)) (Fin 20)) (Fin 0.5);
          (r2, st1) = Math_random st;
          randomDrift = js_mul (js_sub (Fin r2) (Fin 0.5)) (Math_abs tempDrift)
      in (randomDrift, st1))"

definition setFilters :: "engine \<Rightarrow> engine" where
  "setFilters st =
     (let sun = calculateSunElevation st;
          elevationNorm = Math_max (Fin (- 20)) (Math_min (Fin 70) sun);
          elevationFactor = js_div (js_add elevationNorm (Fin 20)) (Fin 90);
          sunBasedLPF = js_add (Fin 500) (js_mul elevationFactor (Fin 4500));
          latNormFilter = js_div (js_add (ToNumber (latitude st)) (Fin 90)) (Fin 180);
          latModulation = js_mul latNormFilter (Fin 1000);
          sunBasedHPF = js_sub (Fin 200) (js_mul elevationFactor (Fin 150));
          lonNorm = js_div (js_add (ToNumber (longitude st)) (Fin 180)) (Fin 360);
          lonModulation = js_mul lonNorm (Fin 50)
      in st\<lparr>sunElevation := sun,
            lowPassFilter := Some (js_add sunBasedLPF latModulation),
            highPassFilter := Some (js_add sunBasedHPF lonModulation)\<rparr>)"

definition speedFreqOf :: "engine \<Rightarrow> jsnum" where
  "speedFreqOf st =
     (let speedNorm = Math_min (js_div (ToNumber (speed st)) (Fin 35.8)) (Fin 1);
          speedFreq = js_add (Fin 50) (js_mul speedNorm (Fin 950))
      in if mode st = ''pulse'' \<or> mode st = ''click'' then
           (if js_lt speedNorm (Fin 0.5) then js_mul speedFreq (Fin 0.25)
            else js_mul speedFreq (Fin 4.0))
         else speedFreq)"

definition setVoices :: "jsnum \<Rightarrow> engine \<Rightarrow> engine" where
  "setVoices randomDrift st =
     (let compassTones = getScaleTones st;
          useSubharmonics = js_gt (fundamentalFreq st) (Fin 200);
          fund = js_add (fundamentalFreq st) randomDrift;
          st1 = setOscillatorFrequency 0 fund st;
          st2 = fold (\<lambda>(oscIdx, i) s.
                       setOscillatorFrequency oscIdx
                         (harmonicOf (mode st) useSubharmonics fund compassTones oscIdx i) s)
                  (zip harmonicIndices [0..<length harmonicIndices]) st1;
          st3 = st2\<lparr>lastHeading := heading st\<rparr>
      in setOscillatorFrequency 3 (speedFreqOf st) st3)"

definition panOf :: "engine \<Rightarrow> jsnum \<Rightarrow> nat \<Rightarrow> jsnum" where
  "panOf st panPosition i =
     (let densitySpread = js_sub (Fin 1.0) (js_mul (ToNumber (populationDensity st)) (Fin 0.7));
          baseOffset = js_mul (js_sub (Fin (real i)) (Fin 3.5)) (Fin 0.05);
          offset = js_mul baseOffset densitySpread
      in Math_max (Fin (- 0.8)) (Math_min (Fin 0.8) (js_add panPosition offset)))"

definition setMix :: "engine \<Rightarrow> engine" where
  "setMix st =
     (let humidityNorm = js_div (ToNumber (humidity st)) (Fin 100);
          headingRad = js_div (js_mul (ToNumber (heading st)) Math_PI) (Fin 180);
          panPosition = js_mul (Math_sin headingRad) (Fin 0.7)
      in st\<lparr>dryGain := Some (js_sub (Fin 0.85) (js_mul humidityNorm (Fin 0.30))),
            wetGain := Some (js_add (Fin 0.15) (js_mul humidityNorm (Fin 0.45))),
            panners := map (panOf st panPosition) [0..<length (panners st)]\<rparr>)"

definition rainTremolo :: "engine \<Rightarrow> engine" where
  "rainTremolo st =
     (if js_gt (ToNumber (rainfall st)) (Fin 0) then
        let now = Fin (currentTime st);
            (r3, st1) = Math_random st;
            tremoloRate = js_add (Fin 4) (js_mul (Fin r3) (Fin 2));
            rainfallNorm = Math_min (js_div (ToNumber (rainfall st)) (Fin 10)) (Fin 1);
            tremoloDepth = js_add (Fin 0.1) (js_mul rainfallNorm (Fin 0.7))
        in st1\<lparr>gainNodes := map (tremolo now tremoloRate tremoloDepth) (gainNodes st1)\<rparr>
      else st)"

definition updateFrequencies :: "engine \<Rightarrow> engine" where
  "updateFrequencies st =
     (if \<not> isRunning st then st
      else
        let st1 = setFundamental st;
            (randomDrift, st2) = drawDrift st1;
            st3 = setFilters st2;
            st4 = setVoices randomDrift st3;
            st5 = setMix st4
        in rainTremolo st5)"

text \<open>A parameter default (\<open>populationDensity = 0.5\<close>) replaces \<open>undefined\<close> only.\<close>

definition defaultParam :: "jsnum \<Rightarrow> jsval \<Rightarrow> jsval" where
  "defaultParam d v = (case v of Undefined \<Rightarrow> Number d | Number x \<Rightarrow> Number x)"

definition setEnvironmentalData ::
  "jsval \<Rightarrow> jsval \<Rightarrow> jsval \<Rightarrow> jsval \<Rightarrow> jsval \<Rightarrow> jsval \<Rightarrow> jsval \<Rightarrow> jsval \<Rightarrow> jsval \<Rightarrow> jsval \<Rightarrow> jsval
     \<Rightarrow> engine \<Rightarrow> engine" where
  "setEnvironmentalData lat lon spd temp hum hdg tod popDensity trafDensity elev rain st =
     updateFrequencies
       (st\<lparr>latitude := lat, longitude := lon, speed := spd, temperature := temp,
           humidity := hum, heading := hdg, timeOfDay := tod,
           populationDensity := defaultParam (Fin 0.5) popDensity,
           trafficDensity := defaultParam (Fin 0.0) trafDensity,
           elevation := defaultParam (Fin 0) elev,
           rainfall := defaultParam (Fin 0) rain\<rparr>)"

section \<open>The pulse scheduler\<close>

text \<open>\<open>setTimeout\<close> registers a pending entry and returns its id; \<open>clearTimeout\<close> removes it.\<close>

definition setTimeout :: "callback \<Rightarrow> jsnum \<Rightarrow> engine \<Rightarrow> nat \<times> engine" where
  "setTimeout c d st =
     (nextTimerId st,
      st\<lparr>timers := timers st @ [\<lparr>tid = nextTimerId st, delay = d, cb = c\<rparr>],
         nextTimerId := nextTimerId st + 1\<rparr>)"

definition clearTimeout :: "nat \<Rightarrow> engine \<Rightarrow> engine" where
  "clearTimeout n st = st\<lparr>timers := filter (\<lambda>t. tid t \<noteq> n) (timers st)\<rparr>"

definition primeIntervals :: "jsnum list" where
  "primeIntervals = [Fin 37, Fin 41, Fin 43, Fin 47, Fin 53, Fin 59, Fin 61, Fin 67]"

text \<open>
  The first half of \<open>scheduleSporadicPulse\<close>: interval, duration, fadeIn and fadeOut for
  the mode, drawn from the random outcomes \<open>r 0\<close>, \<open>r 1\<close>, ... in the order of the
  \<open>Math.random()\<close> calls, together with the number of outcomes used.
\<close>

definition pulseTiming ::
  "string \<Rightarrow> nat \<Rightarrow> jsnum \<Rightarrow> (nat \<Rightarrow> real) \<Rightarrow> (jsnum \<times> jsnum \<times> jsnum \<times> jsnum) \<times> nat" where
  "pulseTiming md oscIndex speedNorm r =
     (if md = ''pulse'' then
        let duration = js_add (Fin 50) (js_mul (Fin (r 0)) (Fin 250));
            fadeIn = js_div (js_add (Fin 20) (js_mul (Fin (r 1)) (Fin 60))) (Fin 1000);
            fadeOut = js_div (js_add (Fin 10) (js_mul (Fin (r 2)) (Fin 40))) (Fin 1000);
            minInterval = (if oscIndex = 3 then js_sub (Fin 12000) (js_mul speedNorm (Fin 8000))
                           else js_sub (Fin 8000) (js_mul speedNorm (Fin 5000)));
            maxInterval = (if oscIndex = 3 then js_sub (Fin 20000) (js_mul speedNorm (Fin 12000))
                           else js_sub (Fin 15000) (js_mul speedNorm (Fin 8000)));
            interval = js_add minInterval (js_mul (Fin (r 3)) (js_sub maxInterval minInterval))
        in ((interval, duration, fadeIn, fadeOut), 4)
      else if md = ''click'' then
        let clickType = Fin (r 0);
            (duration, fadeIn, fadeOut) =
              (if js_lt clickType (Fin 0.5) then
                 (js_add (Fin 0.5) (js_mul (Fin (r 1)) (Fin 2)), Fin 0.0001, Fin 0.0001)
               else if js_lt clickType (Fin 0.8) then
                 (js_add (Fin 3) (js_mul (Fin (r 1)) (Fin 7)), Fin 0.0001, Fin 0.001)
               else
                 (js_add (Fin 10) (js_mul (Fin (r 1)) (Fin 20)), Fin 0.0001, Fin 0.003));
            baseInterval = js_mul (ToNumber (js_index primeIntervals (Fin (real oscIndex))))
                             (js_add (Fin 40) (js_mul speedNorm (Fin 20)));
            silenceChance = Fin (r 2);
            silent = js_gt silenceChance (Fin 0.7);
            extraSilence = (if silent then js_mul (Fin (r 3)) (Fin 10000) else Fin 0);
            k = (if silent then 4 else 3);
            jitter = js_mul (js_mul (js_sub (Fin (r k)) (Fin 0.5)) baseInterval) (Fin 0.1);
            interval = js_add (js_add baseInterval jitter) extraSilence
        in ((interval, duration, fadeIn, fadeOut), k + 1)
      else
        let duration = js_add (Fin 4000) (js_mul (Fin (r 0)) (Fin 8000));
            fadeIn = js_add (Fin 1.0) (js_mul (Fin (r 1)) (Fin 2.0));
            fadeOut = js_add (Fin 2.0) (js_mul (Fin (r 2)) (Fin 4.0));
            minInterval = (if oscIndex = 3 then js_sub (Fin 15000) (js_mul speedNorm (Fin 10000))
                           else js_sub (Fin 12000) (js_mul speedNorm (Fin 8000)));
            maxInterval = (if oscIndex = 3 then js_sub (Fin 25000) (js_mul speedNorm (Fin 15000))
                           else js_sub (Fin 20000) (js_mul speedNorm (Fin 12000)));
            interval = js_add minInterval (js_mul (Fin (r 3)) (js_sub maxInterval minInterval))
        in ((interval, duration, fadeIn, fadeOut), 4))"

text \<open>
  The second half: the outer timeout is registered and its id is pushed on
  \<open>sporadicTimers\<close>.
\<close>

definition scheduleSporadicPulse :: "nat \<Rightarrow> engine \<Rightarrow> engine" where
  "scheduleSporadicPulse oscIndex st =
     (let speedNorm = Math_min (js_div (ToNumber (speed st)) (Fin 35.8)) (Fin 1);
          ((interval, duration, fadeIn, fadeOut), k) =
            pulseTiming (mode st) oscIndex speedNorm (\<lambda>n. randoms st (drawn st + n));
          st1 = st\<lparr>drawn := drawn st + k\<rparr>;
          (timer, st2) = setTimeout (PulseStart oscIndex interval duration fadeIn fadeOut) interval st1
      in st2\<lparr>sporadicTimers := sporadicTimers st2 @ [timer]\<rparr>)"

text \<open>
  The callbacks. Each returns at once when the engine is not running. The inner
  timeouts (\<open>HoldEnd\<close>, \<open>ClickNext\<close>) are registered with \<open>setTimeout\<close> and their ids
  are dropped: they are not pushed on \<open>sporadicTimers\<close>. Of a click the model keeps
  the volume of the source started; a click above 2000 Hz draws one random outcome
  per sample of its buffer. Reading the frequency of a missing oscillator throws, which
  ends the callback with the state as it is.
\<close>

definition clickVolume :: "jsnum \<Rightarrow> jsnum" where
  "clickVolume freq =
     (if js_gt freq (Fin 2000) then Fin 0.35
      else if js_gt freq (Fin 200) then Fin 0.45 else Fin 0.60)"

definition envelopeVolume :: "string \<Rightarrow> nat \<Rightarrow> jsnum" where
  "envelopeVolume md oscIndex =
     (let v0 = (if md = ''pulse'' then Fin 0.08 else Fin 0.10);
          v1 = (if md = ''drone'' \<and> oscIndex \<le> 2 then js_mul v0 (Fin 1.15) else v0)
      in if md = ''drone'' then
           (if oscIndex = 4 then js_mul v1 (Fin 0.5)
            else if oscIndex = 5 then js_mul v1 (Fin 0.5)
            else if oscIndex = 6 \<or> oscIndex = 7 then js_mul v1 (Fin 0.6) else v1)
         else v1)"

definition runCallback :: "callback \<Rightarrow> engine \<Rightarrow> engine" where
  "runCallback c st =
     (case c of
        PulseStart oscIndex interval duration fadeIn' fadeOut' \<Rightarrow>
          if \<not> isRunning st then st
          else if mode st = ''click'' then
            (if \<not> oscIndex < length (oscillators st) then st
             else
               let bufferLength =
                     (case duration of Fin d \<Rightarrow> nat \<lceil>sampleRate st * (d / 1000)\<rceil> | _ \<Rightarrow> 0);
                   freq = pvalue (frequency (oscillators st ! oscIndex));
                   st1 = (if js_gt freq (Fin 2000) then st\<lparr>drawn := drawn st + bufferLength\<rparr>
                          else st);
                   st2 = st1\<lparr>clickSources := clickSources st1 @ [clickVolume freq]\<rparr>
               in snd (setTimeout (ClickNext oscIndex) interval st2))
          else
            let targetVolume = envelopeVolume (mode st) oscIndex;
                st1 = fadeIn oscIndex fadeIn' targetVolume st
            in snd (setTimeout (HoldEnd oscIndex fadeOut') duration st1)
      | HoldEnd oscIndex fadeOut' \<Rightarrow>
          if \<not> isRunning st then st
          else scheduleSporadicPulse oscIndex (fadeOut oscIndex fadeOut' st)
      | ClickNext oscIndex \<Rightarrow>
          if \<not> isRunning st then st
          else scheduleSporadicPulse oscIndex st)"

text \<open>The platform fires a pending timeout: the entry leaves the table, its callback runs.\<close>

definition fire :: "nat \<Rightarrow> engine \<Rightarrow> engine" where
  "fire n st =
     (case find (\<lambda>t. tid t = n) (timers st) of
        None \<Rightarrow> st
      | Some t \<Rightarrow> runCallback (cb t) (st\<lparr>timers := filter (\<lambda>t. tid t \<noteq> n) (timers st)\<rparr>))"

section \<open>Configuration and lifecycle\<close>

definition startSporadicOscillators :: "engine \<Rightarrow> engine" where
  "startSporadicOscillators st = fold scheduleSporadicPulse [0..<8] st"

text \<open>
  \<open>setWaveform\<close> stores the name and gives every oscillator the periodic wave of a custom
  timbre or the built-in type. It touches nothing else.
\<close>

definition waveOf :: "string \<Rightarrow> wave" where
  "waveOf w =
     (if w = ''organ'' then
        PeriodicWave [0, 1.0, 0.7, 0.3, 0.8, 0.2, 0.4, 0.15, 0.6, 0.1, 0.3, 0.08, 0.2, 0.05,
                      0.15, 0.03, 0.4]
      else if w = ''square'' then
        PeriodicWave [0, 1.0, 0, 0.333, 0, 0.2, 0, 0.143, 0, 0.111, 0, 0.091, 0, 0.077]
      else if w = ''metallic'' then
        PeriodicWave [0, 1.0, 0.4, 0.15, 0.3, 0.08, 0.2, 0.06, 0.15, 0.04, 0.1, 0.03, 0.08]
      else if w = ''harsh'' then
        PeriodicWave [0, 1.0, 0.9, 0.8, 0.7, 0.6, 0.5, 0.4, 0.3, 0.2, 0.15, 0.1]
      else OscType w)"

definition setWaveform :: "string \<Rightarrow> engine \<Rightarrow> engine" where
  "setWaveform w st =
     st\<lparr>waveform := w,
        oscillators := map (\<lambda>osc. osc\<lparr>osc_wave := waveOf w\<rparr>) (oscillators st)\<rparr>"

text \<open>
  \<open>setMode\<close> clears the timeouts whose ids are on \<open>sporadicTimers\<close>, empties the list
  and schedules a pulse for each of the eight voices.
\<close>

definition setMode :: "string \<Rightarrow> engine \<Rightarrow> engine" where
  "setMode m st =
     (let st1 = st\<lparr>mode := m\<rparr>;
          st2 = setWaveform (waveform st1) st1;
          st3 = fold clearTimeout (sporadicTimers st2) st2;
          st4 = st3\<lparr>sporadicTimers := []\<rparr>
      in fold scheduleSporadicPulse [0..<8] st4)"

definition setScale :: "string \<Rightarrow> engine \<Rightarrow> engine" where
  "setScale sc st = updateFrequencies (st\<lparr>scale := sc\<rparr>)"

text \<open>
  \<open>start\<close> creates the buses, the filters and the eight voices (frequency 200, gain 0,
  pan 0), then runs the mapper and starts the scheduler. The wait for the audio
  context to resume is not represented.
\<close>

definition createVoice :: "engine \<Rightarrow> engine" where
  "createVoice s =
     s\<lparr>oscillators := oscillators s @
          [\<lparr>osc_wave = OscType (waveform s),
            frequency = \<lparr>pvalue = Fin 200, pevents = []\<rparr>\<rparr>],
       gainNodes := gainNodes s @ [\<lparr>pvalue = Fin 0, pevents = []\<rparr>],
       panners := panners s @ [Fin 0]\<rparr>"

definition start :: "engine \<Rightarrow> engine" where
  "start st =
     (if isRunning st then st
      else
        let st1 = st\<lparr>dryGain := Some (Fin 0.85), wetGain := Some (Fin 0.15),
                    lowPassFilter := Some (Fin 5000), highPassFilter := Some (Fin 100)\<rparr>;
            st2 = fold (\<lambda>i. createVoice) [0..<8] st1;
            st3 = st2\<lparr>isRunning := True\<rparr>
        in startSporadicOscillators (updateFrequencies st3))"

definition stop :: "engine \<Rightarrow> engine" where
  "stop st =
     (if \<not> isRunning st then st
      else
        let st1 = fold clearTimeout (sporadicTimers st) st
        in st1\<lparr>sporadicTimers := [], oscillators := [], gainNodes := [], panners := [],
               dryGain := None, wetGain := None, lowPassFilter := None, highPassFilter := None,
               isRunning := False\<rparr>)"

section \<open>Observing the scheduler\<close>

text \<open>
  The voice a pending callback belongs to, and whether it is the outer callback of
  \<open>scheduleSporadicPulse\<close>. While the engine runs, every pending callback of a voice
  ends by registering the next callback of that voice, so each pending entry is one live
  chain of the voice.
\<close>

fun cbVoice :: "callback \<Rightarrow> nat" where
  "cbVoice (PulseStart oscIndex interval duration fi fo) = oscIndex"
| "cbVoice (HoldEnd oscIndex fo) = oscIndex"
| "cbVoice (ClickNext oscIndex) = oscIndex"

fun cbOuter :: "callback \<Rightarrow> bool" where
  "cbOuter (PulseStart oscIndex interval duration fi fo) = True"
| "cbOuter (HoldEnd oscIndex fo) = False"
| "cbOuter (ClickNext oscIndex) = False"

definition pending :: "engine \<Rightarrow> (nat \<times> nat \<times> bool) list" where
  "pending st = map (\<lambda>t. (tid t, cbVoice (cb t), cbOuter (cb t))) (timers st)"

definition liveChains :: "nat \<Rightarrow> engine \<Rightarrow> nat" where
  "liveChains v st = length (filter (\<lambda>t. cbVoice (cb t) = v) (timers st))"

text \<open>
  A started engine whose random source always answers 0.5, used where a theorem is
  evaluated on a concrete state.
\<close>

definition startedEngine :: engine where
  "startedEngine = start (EnvironmentalAudioEngine (\<lambda>n. 1 / 2))"


section \<open>Properties\<close>




subsection \<open>The scale tables\<close>

lemma js_le_Fin [simp]: "js_le (Fin a) (Fin b) = (a \<le> b)"
  by (auto simp: js_le_def)

lemma scaleRatiosOf_length:
  "length (scaleRatiosOf ''dreyblatt'') = 20"
  "length (scaleRatiosOf ''harmonic'') = 20"
  "length (scaleRatiosOf ''slendro'') = 20"
  "length (scaleRatiosOf ''pelog'') = 21"
  "length (scaleRatiosOf ''quartertone'') = 24"
  by (simp_all add: scaleRatiosOf_def slendroBase_def pelogBase_def)

lemma scaleRatiosOf_hd:
  "hd (scaleRatiosOf ''dreyblatt'') = Fin 1" "hd (scaleRatiosOf ''harmonic'') = Fin 1"
  "hd (scaleRatiosOf ''slendro'') = Fin 1" "hd (scaleRatiosOf ''pelog'') = Fin 1"
  "hd (scaleRatiosOf ''quartertone'') = Fin 1"
  by (simp_all add: scaleRatiosOf_def slendroBase_def pelogBase_def upt_conv_Cons)

lemma quartertone_sorted: "sorted_wrt js_le (scaleRatiosOf ''quartertone'')"
proof -
  have "sorted_wrt (\<lambda>i j. js_le (Math_pow2 (js_div (Fin (real i)) (Fin 24)))
                           (Math_pow2 (js_div (Fin (real j)) (Fin 24)))) [0..<24]"
    by (rule sorted_wrt_mono_rel [OF _ sorted_wrt_upt]) (simp add: powr_mono)
  then show ?thesis
    by (simp add: scaleRatiosOf_def sorted_wrt_map del: upt_rec_numeral)
qed

lemma dreyblatt_harmonic_sorted:
  "sorted_wrt js_le (scaleRatiosOf ''dreyblatt'')" "sorted_wrt js_le (scaleRatiosOf ''harmonic'')"
  by (simp_all add: scaleRatiosOf_def)

lemma slendro_blocks_sorted:
  "sorted_wrt js_le (take 5 (scaleRatiosOf ''slendro''))"
  "sorted_wrt js_le (take 5 (drop 5 (scaleRatiosOf ''slendro'')))"
  "sorted_wrt js_le (take 5 (drop 10 (scaleRatiosOf ''slendro'')))"
  "sorted_wrt js_le (take 5 (drop 15 (scaleRatiosOf ''slendro'')))"
  by (simp_all add: scaleRatiosOf_def slendroBase_def)

lemma pelog_blocks_sorted:
  "sorted_wrt js_le (take 7 (scaleRatiosOf ''pelog''))"
  "sorted_wrt js_le (take 7 (drop 7 (scaleRatiosOf ''pelog'')))"
  "sorted_wrt js_le (take 7 (drop 14 (scaleRatiosOf ''pelog'')))"
  by (simp_all add: scaleRatiosOf_def pelogBase_def)

text \<open>
  Claim C6, as stated, fails: the slendro table is the five base ratios followed by
  their doubles, triples and quadruples, so 3.74 (1.87 doubled) is followed by 3.0;
  the pelog table likewise steps from 3.776 down to 3.0.
\<close>

theorem scale_ratios_not_monotone:
  "scaleRatiosOf ''slendro'' ! 9 = Fin 3.74 \<and> scaleRatiosOf ''slendro'' ! 10 = Fin 3
   \<and> \<not> sorted_wrt js_le (scaleRatiosOf ''slendro'')
   \<and> scaleRatiosOf ''pelog'' ! 13 = Fin 3.776 \<and> scaleRatiosOf ''pelog'' ! 14 = Fin 3
   \<and> \<not> sorted_wrt js_le (scaleRatiosOf ''pelog'')"
  by (simp add: scaleRatiosOf_def slendroBase_def pelogBase_def)

text \<open>
  Claim C6, amended. Each of the five supported scales has a ratio sequence whose first
  element is 1.0. The dreyblatt, harmonic and quartertone sequences are monotonically
  non-decreasing. The slendro and pelog sequences are non-decreasing within each block
  (the base set of 5, respectively 7, ratios and each of its multiples), not across
  the blocks.
\<close>

theorem scale_ratios_order:
  "hd (scaleRatiosOf ''dreyblatt'') = Fin 1 \<and> hd (scaleRatiosOf ''harmonic'') = Fin 1
   \<and> hd (scaleRatiosOf ''slendro'') = Fin 1 \<and> hd (scaleRatiosOf ''pelog'') = Fin 1
   \<and> hd (scaleRatiosOf ''quartertone'') = Fin 1
   \<and> sorted_wrt js_le (scaleRatiosOf ''dreyblatt'')
   \<and> sorted_wrt js_le (scaleRatiosOf ''harmonic'')
   \<and> sorted_wrt js_le (scaleRatiosOf ''quartertone'')
   \<and> sorted_wrt js_le (take 5 (scaleRatiosOf ''slendro''))
   \<and> sorted_wrt js_le (take 5 (drop 5 (scaleRatiosOf ''slendro'')))
   \<and> sorted_wrt js_le (take 5 (drop 10 (scaleRatiosOf ''slendro'')))
   \<and> sorted_wrt js_le (take 5 (drop 15 (scaleRatiosOf ''slendro'')))
   \<and> sorted_wrt js_le (take 7 (scaleRatiosOf ''pelog''))
   \<and> sorted_wrt js_le (take 7 (drop 7 (scaleRatiosOf ''pelog'')))
   \<and> sorted_wrt js_le (take 7 (drop 14 (scaleRatiosOf ''pelog'')))"
  by (intro conjI scaleRatiosOf_hd quartertone_sorted dreyblatt_harmonic_sorted
      slendro_blocks_sorted pelog_blocks_sorted)

subsection \<open>Tone selection\<close>

lemma getScaleTones_length: "length (getScaleTones st) = 6"
  by (simp add: getScaleTones_def Let_def)

lemma getScaleTones_reads:
  "scale st = scale st' \<Longrightarrow> heading st = heading st' \<Longrightarrow> getScaleTones st = getScaleTones st'"
  by (simp add: getScaleTones_def)







text \<open>
  Claim C7 at a heading below zero. The output is a function of the scale and the
  heading alone (\<open>getScaleTones_reads\<close>) and always has six entries
  (\<open>getScaleTones_length\<close>), and for a heading that is not negative every entry is a
  ratio of the table (\<open>getScaleTones_in_table\<close>). But \<open>%\<close> keeps the sign of the
  heading: at -45 degrees with the harmonic scale the start index is -2 and the first
  entry is \<open>undefined\<close>, which is no ratio of the sequence.
\<close>

theorem getScaleTones_negative_heading:
  "getScaleTones ((EnvironmentalAudioEngine (\<lambda>n. 0))
      \<lparr>heading := Number (Fin (- 45)), scale := ''harmonic''\<rparr>)
     = [Undefined, Number (Fin 1), Number (Fin 3), Number (Fin 5), Number (Fin 7), Number (Fin 9)]
   \<and> Undefined \<notin> Number ` set (scaleRatiosOf ''harmonic'')"
  by (simp add: getScaleTones_def Let_def EnvironmentalAudioEngine_def scaleRatiosOf_def
      js_sub_def trunc_def image_iff)

text \<open>
  Claim C8. For each of the five supported scales, the tones selected at heading 89.9
  and those selected at heading 90.1 share a ratio (the sixth of the table: it is the
  second tone just below the boundary and the first tone just above it).
\<close>

theorem heading_90_overlap:
  assumes "scale st \<in> {''dreyblatt'', ''harmonic'', ''slendro'', ''pelog'', ''quartertone''}"
    and "scale st' = scale st"
    and "heading st = Number (Fin 89.9)" and "heading st' = Number (Fin 90.1)"
  shows "\<exists>r. Number r \<in> set (getScaleTones st) \<inter> set (getScaleTones st')"
proof -
  from assms(1) have len: "20 \<le> length (scaleRatiosOf (scale st))"
    by (auto simp: scaleRatiosOf_length)
  have a: "getScaleTones st ! 1 = Number (scaleRatiosOf (scale st) ! 5)"
    using assms(3) len by (simp add: getScaleTones_def Let_def js_sub_def trunc_def)
  have b: "getScaleTones st' ! 0 = Number (scaleRatiosOf (scale st) ! 5)"
    using assms(2,4) len by (simp add: getScaleTones_def Let_def js_sub_def trunc_def)
  have "getScaleTones st ! 1 \<in> set (getScaleTones st)"
    by (rule nth_mem) (simp add: getScaleTones_length)
  moreover have "getScaleTones st' ! 0 \<in> set (getScaleTones st')"
    by (rule nth_mem) (simp add: getScaleTones_length)
  ultimately show ?thesis using a b by auto
qed

theorem heading_90_overlap_witness:
  "''slendro'' \<in> {''dreyblatt'', ''harmonic'', ''slendro'', ''pelog'', ''quartertone''}
   \<and> (\<exists>r. Number r \<in>
          set (getScaleTones ((EnvironmentalAudioEngine (\<lambda>n. 0))
                 \<lparr>heading := Number (Fin 89.9), scale := ''slendro''\<rparr>))
        \<inter> set (getScaleTones ((EnvironmentalAudioEngine (\<lambda>n. 0))
                 \<lparr>heading := Number (Fin 90.1), scale := ''slendro''\<rparr>)))"
  using heading_90_overlap
    [of "(EnvironmentalAudioEngine (\<lambda>n. 0))\<lparr>heading := Number (Fin 89.9), scale := ''slendro''\<rparr>"
        "(EnvironmentalAudioEngine (\<lambda>n. 0))\<lparr>heading := Number (Fin 90.1), scale := ''slendro''\<rparr>"]
  by (simp add: EnvironmentalAudioEngine_def)

text \<open>
  Claim C10 at its failing inputs. At heading -10 with the dreyblatt scale the start
  index is -1; with an unrecognised scale name the fallback table has six ratios, so
  \<open>Math.min(4, scaleRatios.length - 10)\<close> is -4 and at heading 45 the start index is -2.
  In both cases the first entry read is \<open>undefined\<close>.
\<close>

theorem getScaleTones_index_outside_table:
  "getScaleTones ((EnvironmentalAudioEngine (\<lambda>n. 0))
      \<lparr>heading := Number (Fin (- 10)), scale := ''dreyblatt''\<rparr>) ! 0 = Undefined
   \<and> getScaleTones ((EnvironmentalAudioEngine (\<lambda>n. 0))
      \<lparr>heading := Number (Fin 45), scale := ''chromatic''\<rparr>) ! 0 = Undefined"
  by (simp add: getScaleTones_def Let_def EnvironmentalAudioEngine_def scaleRatiosOf_def
      js_sub_def trunc_def)

subsection \<open>Frame lemmas\<close>

text \<open>What each operation leaves alone.\<close>

lemma js_NaN_right [simp]:
  "js_add x NaN = NaN" "js_mul x NaN = NaN" "js_div x NaN = NaN" "js_mod x NaN = NaN"
  "Math_min x NaN = NaN" "Math_max x NaN = NaN" "js_sub x NaN = NaN" "js_sub NaN x = NaN"
  by (cases x; simp add: js_sub_def)+

lemma fold_frame:
  assumes "\<And>x s. F (step x s) = F s"
  shows "F (fold step xs s) = F s"
  by (induction xs arbitrary: s) (simp_all add: assms)

lemma setOscillatorFrequency_frame [simp]:
  "isRunning (setOscillatorFrequency i f st) = isRunning st"
  "mode (setOscillatorFrequency i f st) = mode st"
  "waveform (setOscillatorFrequency i f st) = waveform st"
  "scale (setOscillatorFrequency i f st) = scale st"
  "speed (setOscillatorFrequency i f st) = speed st"
  "temperature (setOscillatorFrequency i f st) = temperature st"
  "humidity (setOscillatorFrequency i f st) = humidity st"
  "heading (setOscillatorFrequency i f st) = heading st"
  "timeOfDay (setOscillatorFrequency i f st) = timeOfDay st"
  "latitude (setOscillatorFrequency i f st) = latitude st"
  "longitude (setOscillatorFrequency i f st) = longitude st"
  "populationDensity (setOscillatorFrequency i f st) = populationDensity st"
  "rainfall (setOscillatorFrequency i f st) = rainfall st"
  "currentTime (setOscillatorFrequency i f st) = currentTime st"
  "sampleRate (setOscillatorFrequency i f st) = sampleRate st"
  "randoms (setOscillatorFrequency i f st) = randoms st"
  "clickSources (setOscillatorFrequency i f st) = clickSources st"
  "trafficDensity (setOscillatorFrequency i f st) = trafficDensity st"
  "elevation (setOscillatorFrequency i f st) = elevation st"
  "timers (setOscillatorFrequency i f st) = timers st"
  "sporadicTimers (setOscillatorFrequency i f st) = sporadicTimers st"
  "nextTimerId (setOscillatorFrequency i f st) = nextTimerId st"
  "gainNodes (setOscillatorFrequency i f st) = gainNodes st"
  "drawn (setOscillatorFrequency i f st) = drawn st"
  "fundamentalFreq (setOscillatorFrequency i f st) = fundamentalFreq st"
  by (simp_all add: setOscillatorFrequency_def Let_def)

lemma setFundamental_frame [simp]:
  "isRunning (setFundamental st) = isRunning st"
  "mode (setFundamental st) = mode st"
  "waveform (setFundamental st) = waveform st"
  "scale (setFundamental st) = scale st"
  "speed (setFundamental st) = speed st"
  "temperature (setFundamental st) = temperature st"
  "humidity (setFundamental st) = humidity st"
  "heading (setFundamental st) = heading st"
  "timeOfDay (setFundamental st) = timeOfDay st"
  "latitude (setFundamental st) = latitude st"
  "longitude (setFundamental st) = longitude st"
  "populationDensity (setFundamental st) = populationDensity st"
  "rainfall (setFundamental st) = rainfall st"
  "currentTime (setFundamental st) = currentTime st"
  "sampleRate (setFundamental st) = sampleRate st"
  "randoms (setFundamental st) = randoms st"
  "clickSources (setFundamental st) = clickSources st"
  "trafficDensity (setFundamental st) = trafficDensity st"
  "elevation (setFundamental st) = elevation st"
  "timers (setFundamental st) = timers st"
  "sporadicTimers (setFundamental st) = sporadicTimers st"
  "nextTimerId (setFundamental st) = nextTimerId st"
  "gainNodes (setFundamental st) = gainNodes st"
  "oscillators (setFundamental st) = oscillators st"
  by (simp_all add: setFundamental_def Math_random_def Let_def)

lemma drawDrift_frame [simp]:
  "isRunning (snd (drawDrift st)) = isRunning st"
  "mode (snd (drawDrift st)) = mode st"
  "waveform (snd (drawDrift st)) = waveform st"
  "scale (snd (drawDrift st)) = scale st"
  "speed (snd (drawDrift st)) = speed st"
  "temperature (snd (drawDrift st)) = temperature st"
  "humidity (snd (drawDrift st)) = humidity st"
  "heading (snd (drawDrift st)) = heading st"
  "timeOfDay (snd (drawDrift st)) = timeOfDay st"
  "latitude (snd (drawDrift st)) = latitude st"
  "longitude (snd (drawDrift st)) = longitude st"
  "populationDensity (snd (drawDrift st)) = populationDensity st"
  "rainfall (snd (drawDrift st)) = rainfall st"
  "currentTime (snd (drawDrift st)) = currentTime st"
  "sampleRate (snd (drawDrift st)) = sampleRate st"
  "randoms (snd (drawDrift st)) = randoms st"
  "clickSources (snd (drawDrift st)) = clickSources st"
  "trafficDensity (snd (drawDrift st)) = trafficDensity st"
  "elevation (snd (drawDrift st)) = elevation st"
  "timers (snd (drawDrift st)) = timers st"
  "sporadicTimers (snd (drawDrift st)) = sporadicTimers st"
  "nextTimerId (snd (drawDrift st)) = nextTimerId st"
  "gainNodes (snd (drawDrift st)) = gainNodes st"
  "oscillators (snd (drawDrift st)) = oscillators st"
  "fundamentalFreq (snd (drawDrift st)) = fundamentalFreq st"
  by (simp_all add: drawDrift_def Math_random_def Let_def)

lemma setFilters_frame [simp]:
  "isRunning (setFilters st) = isRunning st"
  "mode (setFilters st) = mode st"
  "waveform (setFilters st) = waveform st"
  "scale (setFilters st) = scale st"
  "speed (setFilters st) = speed st"
  "temperature (setFilters st) = temperature st"
  "humidity (setFilters st) = humidity st"
  "heading (setFilters st) = heading st"
  "timeOfDay (setFilters st) = timeOfDay st"
  "latitude (setFilters st) = latitude st"
  "longitude (setFilters st) = longitude st"
  "populationDensity (setFilters st) = populationDensity st"
  "rainfall (setFilters st) = rainfall st"
  "currentTime (setFilters st) = currentTime st"
  "sampleRate (setFilters st) = sampleRate st"
  "randoms (setFilters st) = randoms st"
  "clickSources (setFilters st) = clickSources st"
  "trafficDensity (setFilters st) = trafficDensity st"
  "elevation (setFilters st) = elevation st"
  "timers (setFilters st) = timers st"
  "sporadicTimers (setFilters st) = sporadicTimers st"
  "nextTimerId (setFilters st) = nextTimerId st"
  "gainNodes (setFilters st) = gainNodes st"
  "oscillators (setFilters st) = oscillators st"
  "fundamentalFreq (setFilters st) = fundamentalFreq st"
  "drawn (setFilters st) = drawn st"
  by (simp_all add: setFilters_def Let_def)

lemma setVoices_frame [simp]:
  "isRunning (setVoices d st) = isRunning st"
  "mode (setVoices d st) = mode st"
  "waveform (setVoices d st) = waveform st"
  "scale (setVoices d st) = scale st"
  "speed (setVoices d st) = speed st"
  "temperature (setVoices d st) = temperature st"
  "humidity (setVoices d st) = humidity st"
  "heading (setVoices d st) = heading st"
  "timeOfDay (setVoices d st) = timeOfDay st"
  "latitude (setVoices d st) = latitude st"
  "longitude (setVoices d st) = longitude st"
  "populationDensity (setVoices d st) = populationDensity st"
  "rainfall (setVoices d st) = rainfall st"
  "currentTime (setVoices d st) = currentTime st"
  "sampleRate (setVoices d st) = sampleRate st"
  "randoms (setVoices d st) = randoms st"
  "clickSources (setVoices d st) = clickSources st"
  "trafficDensity (setVoices d st) = trafficDensity st"
  "elevation (setVoices d st) = elevation st"
  "timers (setVoices d st) = timers st"
  "sporadicTimers (setVoices d st) = sporadicTimers st"
  "nextTimerId (setVoices d st) = nextTimerId st"
  "gainNodes (setVoices d st) = gainNodes st"
  "drawn (setVoices d st) = drawn st"
  "fundamentalFreq (setVoices d st) = fundamentalFreq st"
  unfolding setVoices_def Let_def by (simp_all add: fold_frame split_beta)

lemma setMix_frame [simp]:
  "isRunning (setMix st) = isRunning st"
  "mode (setMix st) = mode st"
  "waveform (setMix st) = waveform st"
  "scale (setMix st) = scale st"
  "speed (setMix st) = speed st"
  "temperature (setMix st) = temperature st"
  "humidity (setMix st) = humidity st"
  "heading (setMix st) = heading st"
  "timeOfDay (setMix st) = timeOfDay st"
  "latitude (setMix st) = latitude st"
  "longitude (setMix st) = longitude st"
  "populationDensity (setMix st) = populationDensity st"
  "rainfall (setMix st) = rainfall st"
  "currentTime (setMix st) = currentTime st"
  "sampleRate (setMix st) = sampleRate st"
  "randoms (setMix st) = randoms st"
  "clickSources (setMix st) = clickSources st"
  "trafficDensity (setMix st) = trafficDensity st"
  "elevation (setMix st) = elevation st"
  "timers (setMix st) = timers st"
  "sporadicTimers (setMix st) = sporadicTimers st"
  "nextTimerId (setMix st) = nextTimerId st"
  "gainNodes (setMix st) = gainNodes st"
  "oscillators (setMix st) = oscillators st"
  "drawn (setMix st) = drawn st"
  "fundamentalFreq (setMix st) = fundamentalFreq st"
  by (simp_all add: setMix_def Let_def)

lemma rainTremolo_frame [simp]:
  "isRunning (rainTremolo st) = isRunning st"
  "mode (rainTremolo st) = mode st"
  "waveform (rainTremolo st) = waveform st"
  "scale (rainTremolo st) = scale st"
  "speed (rainTremolo st) = speed st"
  "temperature (rainTremolo st) = temperature st"
  "humidity (rainTremolo st) = humidity st"
  "heading (rainTremolo st) = heading st"
  "timeOfDay (rainTremolo st) = timeOfDay st"
  "latitude (rainTremolo st) = latitude st"
  "longitude (rainTremolo st) = longitude st"
  "populationDensity (rainTremolo st) = populationDensity st"
  "rainfall (rainTremolo st) = rainfall st"
  "currentTime (rainTremolo st) = currentTime st"
  "sampleRate (rainTremolo st) = sampleRate st"
  "randoms (rainTremolo st) = randoms st"
  "clickSources (rainTremolo st) = clickSources st"
  "trafficDensity (rainTremolo st) = trafficDensity st"
  "elevation (rainTremolo st) = elevation st"
  "timers (rainTremolo st) = timers st"
  "sporadicTimers (rainTremolo st) = sporadicTimers st"
  "nextTimerId (rainTremolo st) = nextTimerId st"
  "oscillators (rainTremolo st) = oscillators st"
  "fundamentalFreq (rainTremolo st) = fundamentalFreq st"
  by (simp_all add: rainTremolo_def Math_random_def Let_def)

lemma updateFrequencies_frame [simp]:
  "isRunning (updateFrequencies st) = isRunning st"
  "mode (updateFrequencies st) = mode st"
  "waveform (updateFrequencies st) = waveform st"
  "scale (updateFrequencies st) = scale st"
  "speed (updateFrequencies st) = speed st"
  "temperature (updateFrequencies st) = temperature st"
  "humidity (updateFrequencies st) = humidity st"
  "heading (updateFrequencies st) = heading st"
  "timeOfDay (updateFrequencies st) = timeOfDay st"
  "latitude (updateFrequencies st) = latitude st"
  "longitude (updateFrequencies st) = longitude st"
  "populationDensity (updateFrequencies st) = populationDensity st"
  "rainfall (updateFrequencies st) = rainfall st"
  "currentTime (updateFrequencies st) = currentTime st"
  "sampleRate (updateFrequencies st) = sampleRate st"
  "randoms (updateFrequencies st) = randoms st"
  "clickSources (updateFrequencies st) = clickSources st"
  "trafficDensity (updateFrequencies st) = trafficDensity st"
  "elevation (updateFrequencies st) = elevation st"
  "timers (updateFrequencies st) = timers st"
  "sporadicTimers (updateFrequencies st) = sporadicTimers st"
  "nextTimerId (updateFrequencies st) = nextTimerId st"
  by (simp_all add: updateFrequencies_def Let_def split_beta)

lemma clearTimeout_frame [simp]:
  "isRunning (clearTimeout n st) = isRunning st"
  "mode (clearTimeout n st) = mode st"
  "waveform (clearTimeout n st) = waveform st"
  "scale (clearTimeout n st) = scale st"
  "speed (clearTimeout n st) = speed st"
  "temperature (clearTimeout n st) = temperature st"
  "humidity (clearTimeout n st) = humidity st"
  "heading (clearTimeout n st) = heading st"
  "timeOfDay (clearTimeout n st) = timeOfDay st"
  "latitude (clearTimeout n st) = latitude st"
  "longitude (clearTimeout n st) = longitude st"
  "populationDensity (clearTimeout n st) = populationDensity st"
  "rainfall (clearTimeout n st) = rainfall st"
  "currentTime (clearTimeout n st) = currentTime st"
  "sampleRate (clearTimeout n st) = sampleRate st"
  "randoms (clearTimeout n st) = randoms st"
  "clickSources (clearTimeout n st) = clickSources st"
  "trafficDensity (clearTimeout n st) = trafficDensity st"
  "elevation (clearTimeout n st) = elevation st"
  "oscillators (clearTimeout n st) = oscillators st"
  "gainNodes (clearTimeout n st) = gainNodes st"
  "panners (clearTimeout n st) = panners st"
  "sporadicTimers (clearTimeout n st) = sporadicTimers st"
  "nextTimerId (clearTimeout n st) = nextTimerId st"
  "drawn (clearTimeout n st) = drawn st"
  by (simp_all add: clearTimeout_def)

lemma scheduleSporadicPulse_frame [simp]:
  "isRunning (scheduleSporadicPulse i st) = isRunning st"
  "mode (scheduleSporadicPulse i st) = mode st"
  "waveform (scheduleSporadicPulse i st) = waveform st"
  "scale (scheduleSporadicPulse i st) = scale st"
  "speed (scheduleSporadicPulse i st) = speed st"
  "temperature (scheduleSporadicPulse i st) = temperature st"
  "humidity (scheduleSporadicPulse i st) = humidity st"
  "heading (scheduleSporadicPulse i st) = heading st"
  "timeOfDay (scheduleSporadicPulse i st) = timeOfDay st"
  "latitude (scheduleSporadicPulse i st) = latitude st"
  "longitude (scheduleSporadicPulse i st) = longitude st"
  "populationDensity (scheduleSporadicPulse i st) = populationDensity st"
  "rainfall (scheduleSporadicPulse i st) = rainfall st"
  "currentTime (scheduleSporadicPulse i st) = currentTime st"
  "sampleRate (scheduleSporadicPulse i st) = sampleRate st"
  "randoms (scheduleSporadicPulse i st) = randoms st"
  "clickSources (scheduleSporadicPulse i st) = clickSources st"
  "trafficDensity (scheduleSporadicPulse i st) = trafficDensity st"
  "elevation (scheduleSporadicPulse i st) = elevation st"
  "oscillators (scheduleSporadicPulse i st) = oscillators st"
  "gainNodes (scheduleSporadicPulse i st) = gainNodes st"
  "panners (scheduleSporadicPulse i st) = panners st"
  by (simp_all add: scheduleSporadicPulse_def setTimeout_def Let_def split_beta)

lemma setWaveform_frame [simp]:
  "isRunning (setWaveform w st) = isRunning st"
  "mode (setWaveform w st) = mode st"
  "scale (setWaveform w st) = scale st"
  "speed (setWaveform w st) = speed st"
  "temperature (setWaveform w st) = temperature st"
  "humidity (setWaveform w st) = humidity st"
  "heading (setWaveform w st) = heading st"
  "timeOfDay (setWaveform w st) = timeOfDay st"
  "latitude (setWaveform w st) = latitude st"
  "longitude (setWaveform w st) = longitude st"
  "populationDensity (setWaveform w st) = populationDensity st"
  "rainfall (setWaveform w st) = rainfall st"
  "currentTime (setWaveform w st) = currentTime st"
  "sampleRate (setWaveform w st) = sampleRate st"
  "randoms (setWaveform w st) = randoms st"
  "clickSources (setWaveform w st) = clickSources st"
  "trafficDensity (setWaveform w st) = trafficDensity st"
  "elevation (setWaveform w st) = elevation st"
  "timers (setWaveform w st) = timers st"
  "sporadicTimers (setWaveform w st) = sporadicTimers st"
  "nextTimerId (setWaveform w st) = nextTimerId st"
  "gainNodes (setWaveform w st) = gainNodes st"
  "panners (setWaveform w st) = panners st"
  "drawn (setWaveform w st) = drawn st"
  by (simp_all add: setWaveform_def)

lemma fadeIn_frame [simp]:
  "isRunning (fadeIn i d v st) = isRunning st"
  "mode (fadeIn i d v st) = mode st"
  "waveform (fadeIn i d v st) = waveform st"
  "scale (fadeIn i d v st) = scale st"
  "speed (fadeIn i d v st) = speed st"
  "temperature (fadeIn i d v st) = temperature st"
  "humidity (fadeIn i d v st) = humidity st"
  "heading (fadeIn i d v st) = heading st"
  "timeOfDay (fadeIn i d v st) = timeOfDay st"
  "latitude (fadeIn i d v st) = latitude st"
  "longitude (fadeIn i d v st) = longitude st"
  "populationDensity (fadeIn i d v st) = populationDensity st"
  "rainfall (fadeIn i d v st) = rainfall st"
  "currentTime (fadeIn i d v st) = currentTime st"
  "sampleRate (fadeIn i d v st) = sampleRate st"
  "randoms (fadeIn i d v st) = randoms st"
  "clickSources (fadeIn i d v st) = clickSources st"
  "trafficDensity (fadeIn i d v st) = trafficDensity st"
  "elevation (fadeIn i d v st) = elevation st"
  "timers (fadeIn i d v st) = timers st"
  "sporadicTimers (fadeIn i d v st) = sporadicTimers st"
  "nextTimerId (fadeIn i d v st) = nextTimerId st"
  "oscillators (fadeIn i d v st) = oscillators st"
  by (simp_all add: fadeIn_def Math_random_def Let_def)

lemma fadeOut_frame [simp]:
  "isRunning (fadeOut i d st) = isRunning st"
  "mode (fadeOut i d st) = mode st"
  "waveform (fadeOut i d st) = waveform st"
  "scale (fadeOut i d st) = scale st"
  "speed (fadeOut i d st) = speed st"
  "temperature (fadeOut i d st) = temperature st"
  "humidity (fadeOut i d st) = humidity st"
  "heading (fadeOut i d st) = heading st"
  "timeOfDay (fadeOut i d st) = timeOfDay st"
  "latitude (fadeOut i d st) = latitude st"
  "longitude (fadeOut i d st) = longitude st"
  "populationDensity (fadeOut i d st) = populationDensity st"
  "rainfall (fadeOut i d st) = rainfall st"
  "currentTime (fadeOut i d st) = currentTime st"
  "sampleRate (fadeOut i d st) = sampleRate st"
  "randoms (fadeOut i d st) = randoms st"
  "clickSources (fadeOut i d st) = clickSources st"
  "trafficDensity (fadeOut i d st) = trafficDensity st"
  "elevation (fadeOut i d st) = elevation st"
  "timers (fadeOut i d st) = timers st"
  "sporadicTimers (fadeOut i d st) = sporadicTimers st"
  "nextTimerId (fadeOut i d st) = nextTimerId st"
  "oscillators (fadeOut i d st) = oscillators st"
  by (simp_all add: fadeOut_def Math_random_def Let_def)

lemma lengths_frame [simp]:
  "length (oscillators (setOscillatorFrequency i f st)) = length (oscillators st)"
  "length (oscillators (setVoices d st)) = length (oscillators st)"
  "length (gainNodes (rainTremolo st)) = length (gainNodes st)"
  "length (oscillators (updateFrequencies st)) = length (oscillators st)"
  "length (gainNodes (updateFrequencies st)) = length (gainNodes st)"
  "length (oscillators (setWaveform w st)) = length (oscillators st)"
  "length (gainNodes (fadeIn i d v st)) = length (gainNodes st)"
  "length (gainNodes (fadeOut i d st)) = length (gainNodes st)"
proof -
  show a: "length (oscillators (setOscillatorFrequency i f st)) = length (oscillators st)" for i f st
    by (simp add: setOscillatorFrequency_def Let_def)
  show b: "length (oscillators (setVoices d st)) = length (oscillators st)"
    unfolding setVoices_def Let_def
    by (simp add: a fold_frame [where F = "\<lambda>s. length (oscillators s)"] split_beta)
  show c: "length (gainNodes (rainTremolo st)) = length (gainNodes st)" for st
    by (simp add: rainTremolo_def Math_random_def Let_def)
  show "length (oscillators (updateFrequencies st)) = length (oscillators st)"
    by (simp add: updateFrequencies_def Let_def split_beta a fold_frame [where F = "\<lambda>s. length (oscillators s)"] setVoices_def)
  show "length (gainNodes (updateFrequencies st)) = length (gainNodes st)"
    by (simp add: updateFrequencies_def Let_def split_beta c)
  show "length (oscillators (setWaveform w st)) = length (oscillators st)"
    by (simp add: setWaveform_def)
  show "length (gainNodes (fadeIn i d v st)) = length (gainNodes st)"
    by (simp add: fadeIn_def Math_random_def Let_def)
  show "length (gainNodes (fadeOut i d st)) = length (gainNodes st)"
    by (simp add: fadeOut_def Math_random_def Let_def)
qed

subsection \<open>The timer table\<close>

lemma scheduleSporadicPulse_pending [simp]:
  "pending (scheduleSporadicPulse i st) = pending st @ [(nextTimerId st, i, True)]"
  "sporadicTimers (scheduleSporadicPulse i st) = sporadicTimers st @ [nextTimerId st]"
  "nextTimerId (scheduleSporadicPulse i st) = nextTimerId st + 1"
  by (simp_all add: scheduleSporadicPulse_def setTimeout_def pending_def Let_def split_beta)

lemma schedule_upto:
  "pending (fold scheduleSporadicPulse [0..<n] st)
     = pending st @ map (\<lambda>i. (nextTimerId st + i, i, True)) [0..<n]
   \<and> sporadicTimers (fold scheduleSporadicPulse [0..<n] st)
     = sporadicTimers st @ map (\<lambda>i. nextTimerId st + i) [0..<n]
   \<and> nextTimerId (fold scheduleSporadicPulse [0..<n] st) = nextTimerId st + n"
  by (induction n) simp_all

lemma clearTimeout_pending [simp]:
  "pending (clearTimeout n st) = filter (\<lambda>x. fst x \<noteq> n) (pending st)"
  by (simp add: clearTimeout_def pending_def filter_map comp_def)

lemma clearAll_pending:
  "pending (fold clearTimeout ns st) = filter (\<lambda>x. fst x \<notin> set ns) (pending st)"
  by (induction ns arbitrary: st) (simp_all add: conj_commute)

lemma setWaveform_pending [simp]: "pending (setWaveform w st) = pending st"
  by (simp add: pending_def)

lemma pending_update [simp]:
  "pending (st\<lparr>sporadicTimers := ts\<rparr>) = pending st"
  "pending (st\<lparr>mode := m\<rparr>) = pending st"
  by (simp_all add: pending_def)

lemma setMode_pending:
  "pending (setMode m st)
     = filter (\<lambda>x. fst x \<notin> set (sporadicTimers st)) (pending st)
       @ map (\<lambda>i. (nextTimerId st + i, i, True)) [0..<8]"
  "sporadicTimers (setMode m st) = map (\<lambda>i. nextTimerId st + i) [0..<8]"
  "nextTimerId (setMode m st) = nextTimerId st + 8"
  unfolding setMode_def Let_def
  by (simp_all add: schedule_upto clearAll_pending fold_frame del: upt_rec_numeral)

lemma setMode_frame [simp]:
  "isRunning (setMode m st) = isRunning st" "mode (setMode m st) = m"
  "gainNodes (setMode m st) = gainNodes st"
  "length (oscillators (setMode m st)) = length (oscillators st)"
  unfolding setMode_def Let_def
  by (simp_all add: fold_frame fold_frame [where F = "\<lambda>s. length (oscillators s)"])


lemma find_view:
  "find (\<lambda>x. fst x = n) (map (\<lambda>t. (tid t, cbVoice (cb t), cbOuter (cb t))) ts) = Some (n, v, outer)
   \<Longrightarrow> \<exists>t. find (\<lambda>t. tid t = n) ts = Some t \<and> cbVoice (cb t) = v \<and> cbOuter (cb t) = outer"
  by (induction ts) (auto split: if_splits)

lemma find_pending:
  assumes "find (\<lambda>x. fst x = n) (pending st) = Some (n, v, outer)"
  shows "\<exists>t. find (\<lambda>t. tid t = n) (timers st) = Some t \<and> cbVoice (cb t) = v \<and> cbOuter (cb t) = outer"
  using assms unfolding pending_def by (rule find_view)

lemma pending_timers_update [simp]:
  "pending (st\<lparr>timers := ts\<rparr>) = map (\<lambda>t. (tid t, cbVoice (cb t), cbOuter (cb t))) ts"
  by (simp add: pending_def)

lemma pending_frames [simp]:
  "pending (fadeOut i d st) = pending st" "pending (fadeIn i d v st) = pending st"
  by (simp_all add: pending_def)

lemma fire_found:
  assumes "find (\<lambda>t. tid t = n) (timers st) = Some t"
  shows "fire n st = runCallback (cb t) (st\<lparr>timers := filter (\<lambda>t. tid t \<noteq> n) (timers st)\<rparr>)"
  using assms by (simp add: fire_def)

lemma pending_filter:
  "map (\<lambda>t. (tid t, cbVoice (cb t), cbOuter (cb t))) (filter (\<lambda>t. tid t \<noteq> n) (timers st))
     = filter (\<lambda>x. fst x \<noteq> n) (pending st)"
  by (simp add: pending_def filter_map comp_def)

lemma runCallback_inner:
  assumes "\<not> cbOuter c" "isRunning st"
  shows "pending (runCallback c st) = pending st @ [(nextTimerId st, cbVoice c, True)]"
    and "sporadicTimers (runCallback c st) = sporadicTimers st @ [nextTimerId st]"
    and "nextTimerId (runCallback c st) = nextTimerId st + 1"
    and "isRunning (runCallback c st)" and "mode (runCallback c st) = mode st"
  using assms by (cases c; simp add: runCallback_def)+


lemma runCallback_outer:
  assumes "cbOuter c" "isRunning st" "mode st \<noteq> ''click''"
  shows "pending (runCallback c st) = pending st @ [(nextTimerId st, cbVoice c, False)]"
    and "sporadicTimers (runCallback c st) = sporadicTimers st"
    and "nextTimerId (runCallback c st) = nextTimerId st + 1"
    and "isRunning (runCallback c st)" and "mode (runCallback c st) = mode st"
  using assms
  by (cases c; simp add: runCallback_def setTimeout_def Let_def pending_def)+

lemma fire_inner:
  assumes f: "find (\<lambda>x. fst x = n) (pending st) = Some (n, v, False)" and run: "isRunning st"
  shows "pending (fire n st) = filter (\<lambda>x. fst x \<noteq> n) (pending st) @ [(nextTimerId st, v, True)]"
    and "sporadicTimers (fire n st) = sporadicTimers st @ [nextTimerId st]"
    and "nextTimerId (fire n st) = nextTimerId st + 1"
    and "isRunning (fire n st)" and "mode (fire n st) = mode st"
proof -
  from find_pending [OF f] obtain t where
    t: "find (\<lambda>t. tid t = n) (timers st) = Some t" "cbVoice (cb t) = v" "\<not> cbOuter (cb t)"
    by auto
  let ?st = "st\<lparr>timers := filter (\<lambda>t. tid t \<noteq> n) (timers st)\<rparr>"
  have run': "isRunning ?st" using run by simp
  note rc = runCallback_inner [OF t(3) run']
  show "pending (fire n st) = filter (\<lambda>x. fst x \<noteq> n) (pending st) @ [(nextTimerId st, v, True)]"
    using rc(1) t(2) by (simp add: fire_found [OF t(1)] pending_filter)
  show "sporadicTimers (fire n st) = sporadicTimers st @ [nextTimerId st]"
    using rc(2) by (simp add: fire_found [OF t(1)])
  show "nextTimerId (fire n st) = nextTimerId st + 1"
    using rc(3) by (simp add: fire_found [OF t(1)])
  show "isRunning (fire n st)" using rc(4) by (simp add: fire_found [OF t(1)])
  show "mode (fire n st) = mode st" using rc(5) by (simp add: fire_found [OF t(1)])
qed

lemma fire_outer:
  assumes f: "find (\<lambda>x. fst x = n) (pending st) = Some (n, v, True)" and run: "isRunning st"
    and md: "mode st \<noteq> ''click''"
  shows "pending (fire n st) = filter (\<lambda>x. fst x \<noteq> n) (pending st) @ [(nextTimerId st, v, False)]"
    and "sporadicTimers (fire n st) = sporadicTimers st"
    and "nextTimerId (fire n st) = nextTimerId st + 1"
    and "isRunning (fire n st)" and "mode (fire n st) = mode st"
proof -
  from find_pending [OF f] obtain t where
    t: "find (\<lambda>t. tid t = n) (timers st) = Some t" "cbVoice (cb t) = v" "cbOuter (cb t)"
    by auto
  let ?st = "st\<lparr>timers := filter (\<lambda>t. tid t \<noteq> n) (timers st)\<rparr>"
  have run': "isRunning ?st" and md': "mode ?st \<noteq> ''click''" using run md by simp_all
  note rc = runCallback_outer [OF t(3) run' md']
  show "pending (fire n st) = filter (\<lambda>x. fst x \<noteq> n) (pending st) @ [(nextTimerId st, v, False)]"
    using rc(1) t(2) by (simp add: fire_found [OF t(1)] pending_filter)
  show "sporadicTimers (fire n st) = sporadicTimers st"
    using rc(2) by (simp add: fire_found [OF t(1)])
  show "nextTimerId (fire n st) = nextTimerId st + 1"
    using rc(3) by (simp add: fire_found [OF t(1)])
  show "isRunning (fire n st)" using rc(4) by (simp add: fire_found [OF t(1)])
  show "mode (fire n st) = mode st" using rc(5) by (simp add: fire_found [OF t(1)])
qed

subsection \<open>The rainfall tremolo and the frequency of voice 0\<close>

declare tremoloLoop.simps [simp del]


lemma tremolo_idle: "\<not> js_gt (pvalue g) (Fin 0) \<Longrightarrow> tremolo now r d g = g"
  by (simp add: tremolo_def Let_def)


lemma updateFrequencies_gainNodes:
  "gainNodes (updateFrequencies st) =
     (if isRunning st \<and> js_gt (ToNumber (rainfall st)) (Fin 0)
      then map (tremolo (Fin (currentTime st))
                  (js_add (Fin 4) (js_mul (Fin (randoms st (drawn st + 2))) (Fin 2)))
                  (js_add (Fin 0.1)
                     (js_mul (Math_min (js_div (ToNumber (rainfall st)) (Fin 10)) (Fin 1)) (Fin 0.7))))
             (gainNodes st)
      else gainNodes st)"
  by (simp add: updateFrequencies_def Let_def split_beta rainTremolo_def Math_random_def
      setFundamental_def drawDrift_def)


subsection \<open>A started engine\<close>

lemma createVoices_fields [simp]:
  "gainNodes (fold (\<lambda>i. createVoice) [0..<n] st)
     = gainNodes st @ replicate n \<lparr>pvalue = Fin 0, pevents = []\<rparr>"
  "length (oscillators (fold (\<lambda>i. createVoice) [0..<n] st)) = length (oscillators st) + n"
  "mode (fold (\<lambda>i. createVoice) [0..<n] st) = mode st"
  "speed (fold (\<lambda>i. createVoice) [0..<n] st) = speed st"
  "rainfall (fold (\<lambda>i. createVoice) [0..<n] st) = rainfall st"
  "scale (fold (\<lambda>i. createVoice) [0..<n] st) = scale st"
  "currentTime (fold (\<lambda>i. createVoice) [0..<n] st) = currentTime st"
  "populationDensity (fold (\<lambda>i. createVoice) [0..<n] st) = populationDensity st"
  "timers (fold (\<lambda>i. createVoice) [0..<n] st) = timers st"
  "sporadicTimers (fold (\<lambda>i. createVoice) [0..<n] st) = sporadicTimers st"
  "nextTimerId (fold (\<lambda>i. createVoice) [0..<n] st) = nextTimerId st"
  by (induction n; simp add: createVoice_def replicate_append_same)+

lemma startSporadicOscillators_frame [simp]:
  "isRunning (startSporadicOscillators st) = isRunning st"
  "mode (startSporadicOscillators st) = mode st"
  "scale (startSporadicOscillators st) = scale st"
  "populationDensity (startSporadicOscillators st) = populationDensity st"
  "rainfall (startSporadicOscillators st) = rainfall st"
  "currentTime (startSporadicOscillators st) = currentTime st"
  "oscillators (startSporadicOscillators st) = oscillators st"
  "gainNodes (startSporadicOscillators st) = gainNodes st"
  by (simp_all add: startSporadicOscillators_def fold_frame)

lemma startSporadicOscillators_pending [simp]:
  "pending (startSporadicOscillators st)
     = pending st @ map (\<lambda>i. (nextTimerId st + i, i, True)) [0..<8]"
  "sporadicTimers (startSporadicOscillators st)
     = sporadicTimers st @ map (\<lambda>i. nextTimerId st + i) [0..<8]"
  "nextTimerId (startSporadicOscillators st) = nextTimerId st + 8"
  by (simp_all add: startSporadicOscillators_def schedule_upto del: upt_rec_numeral)

lemma pending_updateFrequencies [simp]: "pending (updateFrequencies st) = pending st"
  by (simp add: pending_def)

lemma start_fields:
  assumes "\<not> isRunning st"
  shows "isRunning (start st)"
    and "length (oscillators (start st)) = length (oscillators st) + 8"
    and "length (gainNodes (start st)) = length (gainNodes st) + 8"
    and "currentTime (start st) = currentTime st"
    and "mode (start st) = mode st"
    and "populationDensity (start st) = populationDensity st"
    and "rainfall (start st) = rainfall st"
    and "scale (start st) = scale st"
    and "pending (start st) = pending st @ map (\<lambda>i. (nextTimerId st + i, i, True)) [0..<8]"
    and "sporadicTimers (start st) = sporadicTimers st @ map (\<lambda>i. nextTimerId st + i) [0..<8]"
    and "nextTimerId (start st) = nextTimerId st + 8"
  using assms
  by (simp_all add: start_def Let_def pending_def [of "_\<lparr>isRunning := True\<rparr>"]
      pending_def [of "fold (\<lambda>i. createVoice) _ _"] pending_def [of "_\<lparr>highPassFilter := _\<rparr>"]
      pending_def [of st] del: upt_rec_numeral)

lemma start_gainNodes:
  assumes "\<not> isRunning st" "gainNodes st = []"
  shows "gainNodes (start st) = replicate 8 \<lparr>pvalue = Fin 0, pevents = []\<rparr>"
  using assms
  by (simp add: start_def Let_def updateFrequencies_gainNodes tremolo_idle js_gt_def
      del: upt_rec_numeral)

subsection \<open>Mode switches and waveform changes\<close>

lemma upt_0_8: "[0..<8] = [0, 1, 2, 3, 4, 5, 6, 7]"
  by (simp add: upt_conv_Cons)

lemma new_engine_fields [simp]:
  "\<not> isRunning (EnvironmentalAudioEngine rnd)" "mode (EnvironmentalAudioEngine rnd) = ''drone''"
  "pending (EnvironmentalAudioEngine rnd) = []"
  "sporadicTimers (EnvironmentalAudioEngine rnd) = []"
  "nextTimerId (EnvironmentalAudioEngine rnd) = 0"
  "gainNodes (EnvironmentalAudioEngine rnd) = []"
  "oscillators (EnvironmentalAudioEngine rnd) = []"
  "currentTime (EnvironmentalAudioEngine rnd) = 0"
  "populationDensity (EnvironmentalAudioEngine rnd) = Number (Fin 0.5)"
  "rainfall (EnvironmentalAudioEngine rnd) = Number (Fin 0)"
  "scale (EnvironmentalAudioEngine rnd) = ''dreyblatt''"
  by (simp_all add: EnvironmentalAudioEngine_def pending_def)

lemma startedEngine_fields:
  "isRunning startedEngine" "mode startedEngine = ''drone''"
  "pending startedEngine
     = [(0, 0, True), (1, 1, True), (2, 2, True), (3, 3, True), (4, 4, True), (5, 5, True),
        (6, 6, True), (7, 7, True)]"
  "sporadicTimers startedEngine = [0, 1, 2, 3, 4, 5, 6, 7]"
  "nextTimerId startedEngine = 8"
  "gainNodes startedEngine = replicate 8 \<lparr>pvalue = Fin 0, pevents = []\<rparr>"
  "length (oscillators startedEngine) = 8"
  "currentTime startedEngine = 0"
  "populationDensity startedEngine = Number (Fin 0.5)"
  "rainfall startedEngine = Number (Fin 0)"
  "scale startedEngine = ''dreyblatt''"
  unfolding startedEngine_def
  by (simp_all add: start_fields start_gainNodes upt_0_8)

text \<open>
  What \<open>setMode\<close> cannot see it cannot cancel: a pending callback whose id is not on
  \<open>sporadicTimers\<close> is still pending afterwards. When every pending callback is
  recorded, the eight fresh ones are all that is left.
\<close>

lemma setMode_keeps_unrecorded:
  assumes "x \<in> set (pending st)" "fst x \<notin> set (sporadicTimers st)"
  shows "x \<in> set (pending (setMode m st))"
  using assms by (simp add: setMode_pending del: upt_rec_numeral)

lemma setMode_all_recorded:
  assumes "fst ` set (pending st) \<subseteq> set (sporadicTimers st)"
  shows "pending (setMode m st) = map (\<lambda>i. (nextTimerId st + i, i, True)) [0..<8]"
proof -
  have "filter (\<lambda>x. fst x \<notin> set (sporadicTimers st)) (pending st) = []"
    using assms by (auto simp: filter_empty_conv)
  then show ?thesis by (simp add: setMode_pending del: upt_rec_numeral)
qed

lemma liveChains_pending:
  "liveChains v st = length (filter (\<lambda>x. fst (snd x) = v) (pending st))"
  by (simp add: liveChains_def pending_def filter_map comp_def)

text \<open>
  Claim C3 at its failing input. On the started engine the wait of voice 0 ends
  (timeout 0 fires): the voice fades in and its hold timeout, id 8, is registered but
  not recorded in \<open>sporadicTimers\<close>. The three mode switches clear the recorded ids
  only, so timeout 8 is still pending beside the eight fresh ones. When it fires it
  schedules voice 0 again: nine pending callbacks, two of them chains of voice 0.
  An entry of \<open>pending\<close> is (id, voice, outer).
\<close>

theorem hold_timer_survives_mode_switches:
  "pending (fire 0 startedEngine)
     = [(1, 1, True), (2, 2, True), (3, 3, True), (4, 4, True), (5, 5, True), (6, 6, True),
        (7, 7, True), (8, 0, False)]
   \<and> sporadicTimers (fire 0 startedEngine) = [0, 1, 2, 3, 4, 5, 6, 7]
   \<and> pending (setMode ''drone'' (setMode ''pulse'' (setMode ''drone'' (fire 0 startedEngine))))
     = [(8, 0, False), (25, 0, True), (26, 1, True), (27, 2, True), (28, 3, True),
        (29, 4, True), (30, 5, True), (31, 6, True), (32, 7, True)]
   \<and> pending (fire 8
         (setMode ''drone'' (setMode ''pulse'' (setMode ''drone'' (fire 0 startedEngine)))))
     = [(25, 0, True), (26, 1, True), (27, 2, True), (28, 3, True), (29, 4, True),
        (30, 5, True), (31, 6, True), (32, 7, True), (33, 0, True)]
   \<and> liveChains 0 (fire 8
         (setMode ''drone'' (setMode ''pulse'' (setMode ''drone'' (fire 0 startedEngine))))) = 2"
proof -
  define s1 where "s1 = fire 0 startedEngine"
  define s2 where "s2 = setMode ''drone'' s1"
  define s3 where "s3 = setMode ''pulse'' s2"
  define s4 where "s4 = setMode ''drone'' s3"
  define s5 where "s5 = fire 8 s4"
  have f0: "find (\<lambda>x. fst x = 0) (pending startedEngine) = Some (0, 0, True)"
    by (simp add: startedEngine_fields)
  have md0: "mode startedEngine \<noteq> ''click''" by (simp add: startedEngine_fields)
  note o = fire_outer [OF f0 startedEngine_fields(1) md0, folded s1_def]
  have p1: "pending s1 = [(1, 1, True), (2, 2, True), (3, 3, True), (4, 4, True), (5, 5, True),
              (6, 6, True), (7, 7, True), (8, 0, False)]"
    and t1: "sporadicTimers s1 = [0, 1, 2, 3, 4, 5, 6, 7]" and n1: "nextTimerId s1 = 9"
    and r1: "isRunning s1"
    using o by (simp_all add: startedEngine_fields)
  have p2: "pending s2 = [(8, 0, False), (9, 0, True), (10, 1, True), (11, 2, True),
              (12, 3, True), (13, 4, True), (14, 5, True), (15, 6, True), (16, 7, True)]"
    and t2: "sporadicTimers s2 = [9, 10, 11, 12, 13, 14, 15, 16]" and n2: "nextTimerId s2 = 17"
    by (simp_all add: s2_def setMode_pending p1 t1 n1 upt_0_8)
  have p3: "pending s3 = [(8, 0, False), (17, 0, True), (18, 1, True), (19, 2, True),
              (20, 3, True), (21, 4, True), (22, 5, True), (23, 6, True), (24, 7, True)]"
    and t3: "sporadicTimers s3 = [17, 18, 19, 20, 21, 22, 23, 24]" and n3: "nextTimerId s3 = 25"
    by (simp_all add: s3_def setMode_pending p2 t2 n2 upt_0_8)
  have p4: "pending s4 = [(8, 0, False), (25, 0, True), (26, 1, True), (27, 2, True),
              (28, 3, True), (29, 4, True), (30, 5, True), (31, 6, True), (32, 7, True)]"
    and t4: "sporadicTimers s4 = [25, 26, 27, 28, 29, 30, 31, 32]" and n4: "nextTimerId s4 = 33"
    by (simp_all add: s4_def setMode_pending p3 t3 n3 upt_0_8)
  have r4: "isRunning s4" by (simp add: s4_def s3_def s2_def r1)
  have f8: "find (\<lambda>x. fst x = 8) (pending s4) = Some (8, 0, False)"
    by (simp add: p4)
  note i = fire_inner [OF f8 r4, folded s5_def]
  have p5: "pending s5 = [(25, 0, True), (26, 1, True), (27, 2, True), (28, 3, True),
              (29, 4, True), (30, 5, True), (31, 6, True), (32, 7, True), (33, 0, True)]"
    using i(1) by (simp add: p4 n4)
  have "liveChains 0 s5 = 2" by (simp add: liveChains_pending p5)
  with p1 t1 p4 p5 show ?thesis
    unfolding s1_def s2_def s3_def s4_def s5_def by simp
qed


text \<open>
  Claim C4, as stated, fails for \<open>setWaveform\<close>: on the started engine it leaves the
  timer table and \<open>sporadicTimers\<close> exactly as they were, so the eight cycles scheduled
  before the call are still the pending ones.
\<close>

theorem setWaveform_cancels_nothing:
  "timers (setWaveform ''square'' startedEngine) = timers startedEngine
   \<and> sporadicTimers (setWaveform ''square'' startedEngine) = [0, 1, 2, 3, 4, 5, 6, 7]
   \<and> pending (setWaveform ''square'' startedEngine)
       = [(0, 0, True), (1, 1, True), (2, 2, True), (3, 3, True), (4, 4, True), (5, 5, True),
          (6, 6, True), (7, 7, True)]"
  by (simp add: startedEngine_fields)

text \<open>
  Claim C4, amended. \<open>setMode\<close> removes from the timer table every entry whose id is
  recorded in \<open>sporadicTimers\<close> and registers eight fresh outer callbacks, one for each
  voice 0..7, whose ids become the new \<open>sporadicTimers\<close>; all of it in the one call.
  \<open>setWaveform\<close> changes the waveform and leaves the timer table and
  \<open>sporadicTimers\<close> unchanged.
\<close>

theorem setMode_reschedules_setWaveform_does_not:
  "pending (setMode m st)
     = filter (\<lambda>x. fst x \<notin> set (sporadicTimers st)) (pending st)
       @ [(nextTimerId st, 0, True), (nextTimerId st + 1, 1, True), (nextTimerId st + 2, 2, True),
          (nextTimerId st + 3, 3, True), (nextTimerId st + 4, 4, True),
          (nextTimerId st + 5, 5, True), (nextTimerId st + 6, 6, True),
          (nextTimerId st + 7, 7, True)]
   \<and> sporadicTimers (setMode m st)
     = [nextTimerId st, nextTimerId st + 1, nextTimerId st + 2, nextTimerId st + 3,
        nextTimerId st + 4, nextTimerId st + 5, nextTimerId st + 6, nextTimerId st + 7]
   \<and> mode (setMode m st) = m \<and> isRunning (setMode m st) = isRunning st
   \<and> timers (setWaveform w st) = timers st
   \<and> sporadicTimers (setWaveform w st) = sporadicTimers st
   \<and> waveform (setWaveform w st) = w"
  by (simp add: setMode_pending upt_0_8) (simp add: setWaveform_def)

subsection \<open>The rural hard stop\<close>

text \<open>
  Claim C9. With the engine running and a population density below 0.3, \<open>fadeOut\<close> on
  an existing voice cancels what was scheduled from now on, pins the current gain and
  schedules a linear ramp to 0 that ends at most 2 ms after now (1 ms, in fact),
  whatever base duration it was given.
\<close>

theorem fadeOut_rural_hard_stop:
  assumes "isRunning st" and "oscIndex < length (gainNodes st)"
    and "js_lt (ToNumber (populationDensity st)) (Fin 0.3)"
  shows "\<exists>t. pevents (gainNodes (fadeOut oscIndex duration st) ! oscIndex)
           = filter (\<lambda>e. \<not> js_ge (eventTime e) (Fin (currentTime st)))
               (pevents (gainNodes st ! oscIndex))
             @ [SetValueAtTime (pvalue (gainNodes st ! oscIndex)) (Fin (currentTime st)),
                LinearRampToValueAtTime (Fin 0) (Fin t)]
         \<and> currentTime st \<le> t \<and> t \<le> currentTime st + 0.002"
  using assms
  by (intro exI [of _ "currentTime st + 0.001"])
    (simp add: fadeOut_def Let_def cancelScheduledValues_def setValueAtTime_def
      linearRampToValueAtTime_def)

theorem fadeOut_rural_hard_stop_witness:
  "isRunning (startedEngine\<lparr>populationDensity := Number (Fin 0.1)\<rparr>)
   \<and> js_lt (ToNumber (populationDensity (startedEngine\<lparr>populationDensity := Number (Fin 0.1)\<rparr>)))
        (Fin 0.3)
   \<and> (\<exists>t. pevents (gainNodes (fadeOut 3 (Fin 6) (startedEngine\<lparr>populationDensity := Number (Fin 0.1)\<rparr>)) ! 3)
           = [SetValueAtTime (Fin 0) (Fin 0), LinearRampToValueAtTime (Fin 0) (Fin t)]
         \<and> 0 \<le> t \<and> t \<le> 0.002)"
  using fadeOut_rural_hard_stop [of "startedEngine\<lparr>populationDensity := Number (Fin 0.1)\<rparr>" 3 "Fin 6"]
  by (simp add: startedEngine_fields)

subsection \<open>The environmental update and the gains\<close>




lemma createVoices_randoms [simp]:
  "randoms (fold (\<lambda>i. createVoice) [0..<n] st) = randoms st"
  by (induction n) (simp_all add: createVoice_def)






lemma setEnvironmentalData_frame [simp]:
  "timers (setEnvironmentalData lat lon spd temp hum hdg tod pd td el rain st) = timers st"
  "sporadicTimers (setEnvironmentalData lat lon spd temp hum hdg tod pd td el rain st)
     = sporadicTimers st"
  "isRunning (setEnvironmentalData lat lon spd temp hum hdg tod pd td el rain st) = isRunning st"
  "length (gainNodes (setEnvironmentalData lat lon spd temp hum hdg tod pd td el rain st))
     = length (gainNodes st)"
  by (simp_all add: setEnvironmentalData_def)






subsection \<open>Missing and invalid fields\<close>






















end
